theory Spec2Isabelle
  imports Complex_Main
begin

section \<open>JavaScript values\<close>

text \<open>
  The fields typed \<open>any\<close> in the source (payload, result, the vendor's response data) hold
  JavaScript values. \<open>JUndefined\<close> is the value of an absent property or of an omitted
  optional argument. Numbers are kept as integers: the code only tests them for truthiness.
\<close>

datatype jsval =
    JUndefined
  | JNull
  | JBool bool
  | JNum int
  | JStr string
  | JArr "jsval list"
  | JObj "(string \<times> jsval) list"

text \<open>\<open>!v\<close> is \<open>\<not> truthy v\<close>.\<close>

fun truthy :: "jsval \<Rightarrow> bool" where
  "truthy JUndefined = False"
| "truthy JNull = False"
| "truthy (JBool b) = b"
| "truthy (JNum n) = (n \<noteq> 0)"
| "truthy (JStr s) = (s \<noteq> [])"
| "truthy (JArr xs) = True"
| "truthy (JObj fs) = True"

text \<open>\<open>typeof v === 'object'\<close>: true of null, arrays and objects.\<close>

fun typeof_object :: "jsval \<Rightarrow> bool" where
  "typeof_object JNull = True"
| "typeof_object (JArr xs) = True"
| "typeof_object (JObj fs) = True"
| "typeof_object v = False"

text \<open>A string argument or property that may be null or undefined: \<open>if (error)\<close>.\<close>

fun truthy_str :: "string option \<Rightarrow> bool" where
  "truthy_str None = False"
| "truthy_str (Some s) = (s \<noteq> [])"

text \<open>
  \<open>String.prototype.trim\<close>, on the white space and line terminators that fit in one byte.
\<close>

definition isSpace :: "char \<Rightarrow> bool" where
  "isSpace c = (c = CHR 0x09 \<or> c = CHR 0x0A \<or> c = CHR 0x0B \<or> c = CHR 0x0C \<or>
                c = CHR 0x0D \<or> c = CHR 0x20 \<or> c = CHR 0xA0)"

definition trim :: "string \<Rightarrow> string" where
  "trim s = rev (dropWhile isSpace (rev (dropWhile isSpace s)))"

section \<open>The job document (models/Job.ts)\<close>

datatype status = Pending | Processing | Complete | Failed

text \<open>
  A job, both as the domain object handed to \<open>create\<close> and as the stored document.
  \<open>result\<close> is \<open>JUndefined\<close> when the caller left it out and \<open>JNull\<close> by the schema's
  default; \<open>error\<close> and \<open>vendor\<close> are \<open>None\<close> when null or absent. Dates are milliseconds.
\<close>

record job =
  requestId :: string
  status :: status
  payload :: jsval
  result :: jsval
  error :: "string option"
  vendor :: "string option"
  createdAt :: int
  updatedAt :: int

text \<open>
  The validator of \<open>requestId\<close>:
  \<^verbatim>\<open>/^[0-9a-f]{8}-[0-9a-f]{4}-[0-9a-f]{4}-[0-9a-f]{4}-[0-9a-f]{12}$/i.test(v)\<close>.
  The pattern is a fixed sequence of 36 character classes, matched position by position.
\<close>

datatype charclass = HexDigit | Dash

definition isHex :: "char \<Rightarrow> bool" where
  "isHex c = (c \<in> set ''0123456789abcdefABCDEF'')"

fun inClass :: "charclass \<Rightarrow> char \<Rightarrow> bool" where
  "inClass HexDigit c = isHex c"
| "inClass Dash c = (c = CHR ''-'')"

definition uuidPattern :: "charclass list" where
  "uuidPattern = replicate 8 HexDigit @ [Dash] @ replicate 4 HexDigit @ [Dash] @
                 replicate 4 HexDigit @ [Dash] @ replicate 4 HexDigit @ [Dash] @
                 replicate 12 HexDigit"

definition uuidRegex :: "string \<Rightarrow> bool" where
  "uuidRegex v = list_all2 inClass uuidPattern v"

text \<open>
  \<open>new JobModel(job)\<close>: the schema's setters and defaults. \<open>trim: true\<close> trims
  \<open>requestId\<close> and \<open>vendor\<close>; \<open>default: null\<close> fills an absent \<open>result\<close>.
\<close>

definition JobModel :: "job \<Rightarrow> job" where
  "JobModel j = j\<lparr> requestId := trim (requestId j),
                   result := (if result j = JUndefined then JNull else result j),
                   vendor := map_option trim (vendor j) \<rparr>"

text \<open>
  Schema validation, one message per failing path, in the schema's order. The
  \<open>required\<close> validator comes first on its path; \<open>status\<close> is typed, so its \<open>enum\<close>
  validator always passes.
\<close>

definition validate_requestId :: "string \<Rightarrow> string option" where
  "validate_requestId v =
     (if v = [] then Some ''Request ID is required''
      else if \<not> uuidRegex v then Some ''Request ID must be a valid UUID''
      else None)"

definition validate_payload :: "jsval \<Rightarrow> string option" where
  "validate_payload v =
     (if v = JUndefined \<or> v = JNull then Some ''Payload is required''
      else if \<not> (v \<noteq> JNull \<and> typeof_object v) then Some ''Payload must be a valid object''
      else None)"

definition validate_error :: "string option \<Rightarrow> string option" where
  "validate_error e =
     (case e of
        None \<Rightarrow> None
      | Some m \<Rightarrow> if length m > 1000
                  then Some ''Error message cannot exceed 1000 characters'' else None)"

definition validate :: "job \<Rightarrow> string list" where
  "validate doc = List.map_filter id
     [validate_requestId (requestId doc), validate_payload (payload doc),
      validate_error (error doc)]"

text \<open>\<open>JobSchema.pre('save')\<close>: the business rules, checked when a document is saved.\<close>

definition preSave :: "job \<Rightarrow> string option" where
  "preSave doc =
     (if status doc = Complete \<and> \<not> truthy (result doc) \<and> \<not> truthy_str (error doc)
      then Some ''Complete jobs must have either result or error''
      else if status doc = Failed \<and> \<not> truthy_str (error doc)
      then Some ''Failed jobs must have an error message''
      else None)"

section \<open>The collection and the repository (JobRepository)\<close>

text \<open>
  The \<open>jobs\<close> collection is the list of stored documents in insertion order. An operation
  that throws returns the error beside the collection as it then is. The database itself
  always answers: a lost connection is not part of the model.
\<close>

type_synonym store = "job list"

datatype store_error =
    ValidationError "string list"
  | DuplicateId string
  | CreateFailed string
  | NotFound string

text \<open>
  The schema option \<open>autoIndex: process.env.NODE_ENV !== 'production'\<close>: Mongoose builds
  the schema's indexes, the unique index on \<open>requestId\<close> among them, only outside production.
  Nothing else in the repository builds an index.
\<close>

definition autoIndex :: "string \<Rightarrow> bool" where
  "autoIndex nodeEnv = (nodeEnv \<noteq> ''production'')"

text \<open>
  The schema option \<open>minimize\<close> (on by default): what is saved has its empty objects
  removed. A property whose value is \<open>undefined\<close> is dropped, and an object left without
  properties becomes \<open>undefined\<close> itself, unless it is the element of an array.
\<close>

fun minimize :: "jsval \<Rightarrow> jsval"
  and minimizeFields :: "(string \<times> jsval) list \<Rightarrow> (string \<times> jsval) list"
  and minimizeElements :: "jsval list \<Rightarrow> jsval list" where
  "minimize (JObj fs) = (case minimizeFields fs of [] \<Rightarrow> JUndefined | f # fs' \<Rightarrow> JObj (f # fs'))"
| "minimize (JArr xs) = JArr (minimizeElements xs)"
| "minimize JUndefined = JUndefined"
| "minimize JNull = JNull"
| "minimize (JBool b) = JBool b"
| "minimize (JNum n) = JNum n"
| "minimize (JStr t) = JStr t"
| "minimizeFields [] = []"
| "minimizeFields (f # fs) =
     (case minimize (snd f) of
        JUndefined \<Rightarrow> minimizeFields fs
      | v \<Rightarrow> (fst f, v) # minimizeFields fs)"
| "minimizeElements [] = []"
| "minimizeElements (x # xs) =
     (case x of
        JObj fs \<Rightarrow> JObj (minimizeFields fs) # minimizeElements xs
      | v \<Rightarrow> minimize v # minimizeElements xs)"

text \<open>
  \<open>create\<close>: \<open>new JobModel(job).save()\<close>. Saving validates the document, runs the
  \<open>pre('save')\<close> hooks (the timestamps hook gives a new document \<open>updatedAt = createdAt\<close>),
  then inserts the minimized document. \<open>uniqueIndex\<close> says whether the collection has the
  unique index on \<open>requestId\<close>; only with it is a duplicate key refused.
\<close>

definition create :: "bool \<Rightarrow> store \<Rightarrow> job \<Rightarrow> store_error option \<times> store" where
  "create uniqueIndex s j =
     (let doc = JobModel j; errs = validate doc in
      if errs \<noteq> [] then (Some (ValidationError errs), s)
      else case preSave doc of
             Some m \<Rightarrow> (Some (CreateFailed m), s)
           | None \<Rightarrow>
               if uniqueIndex \<and> requestId doc \<in> set (map requestId s)
               then (Some (DuplicateId (requestId j)), s)
               else (None, s @ [doc\<lparr> payload := minimize (payload doc),
                                        result := minimize (result doc),
                                        updatedAt := createdAt doc \<rparr>]))"

text \<open>
  \<open>findOne({ requestId })\<close>. The filter is cast through the schema, so the id looked up
  is trimmed as a stored id is.
\<close>

definition findById :: "store \<Rightarrow> string \<Rightarrow> job option" where
  "findById s rid = find (\<lambda>j. requestId j = trim rid) s"

text \<open>
  The \<open>$set\<close> document of an update: the fields it names. \<open>updatedAt\<close> is always among them
  (every caller writes \<open>updatedAt: new Date()\<close>, and the \<open>pre('updateOne')\<close> hook sets it).
  A value \<open>undefined\<close> is stored as null; \<open>vendor\<close> passes the schema's trim.
\<close>

record set_data =
  set_status :: "status option"
  set_result :: "jsval option"
  set_error :: "string option"
  set_vendor :: "string option"
  set_updatedAt :: int

definition apply_set :: "set_data \<Rightarrow> job \<Rightarrow> job" where
  "apply_set d j =
     j\<lparr> status := (case set_status d of None \<Rightarrow> status j | Some st \<Rightarrow> st),
        result := (case set_result d of
                     None \<Rightarrow> result j
                   | Some r \<Rightarrow> if r = JUndefined then JNull else r),
        error := (case set_error d of None \<Rightarrow> error j | Some e \<Rightarrow> Some e),
        vendor := (case set_vendor d of None \<Rightarrow> vendor j | Some v \<Rightarrow> Some (trim v)),
        updatedAt := set_updatedAt d \<rparr>"

fun updateFirst :: "('a \<Rightarrow> bool) \<Rightarrow> ('a \<Rightarrow> 'a) \<Rightarrow> 'a list \<Rightarrow> nat \<times> 'a list" where
  "updateFirst P f [] = (0, [])"
| "updateFirst P f (x # xs) =
     (if P x then (1, f x # xs)
      else (case updateFirst P f xs of (n, ys) \<Rightarrow> (n, x # ys)))"

text \<open>
  \<open>JobModel.updateOne({ requestId }, { $set: data })\<close>: the first matching document is
  updated, no validator and no \<open>pre('save')\<close> hook runs; the result is \<open>matchedCount\<close>.
\<close>

definition updateOne :: "store \<Rightarrow> string \<Rightarrow> set_data \<Rightarrow> nat \<times> store" where
  "updateOne s rid d = updateFirst (\<lambda>j. requestId j = trim rid) (apply_set d) s"

definition updateStatus :: "store \<Rightarrow> string \<Rightarrow> status \<Rightarrow> int \<Rightarrow> store_error option \<times> store" where
  "updateStatus s rid st now =
     (case updateOne s rid \<lparr> set_status = Some st, set_result = None, set_error = None,
                            set_vendor = None, set_updatedAt = now \<rparr> of
        (matchedCount, s') \<Rightarrow>
          if matchedCount = 0 then (Some (NotFound rid), s') else (None, s'))"

text \<open>
  \<open>updateResult(requestId, status, result?, error?)\<close>: \<open>res = JUndefined\<close> is an omitted
  \<open>result\<close>; \<open>result\<close> enters the update when \<open>result !== undefined\<close>, \<open>error\<close> when it
  is truthy.
\<close>

definition updateData :: "status \<Rightarrow> jsval \<Rightarrow> string option \<Rightarrow> int \<Rightarrow> set_data" where
  "updateData st res err now =
     \<lparr> set_status = Some st,
       set_result = (if res \<noteq> JUndefined then Some res else None),
       set_error = (if truthy_str err then err else None),
       set_vendor = None,
       set_updatedAt = now \<rparr>"

definition updateResult ::
  "store \<Rightarrow> string \<Rightarrow> status \<Rightarrow> jsval \<Rightarrow> string option \<Rightarrow> int \<Rightarrow> store_error option \<times> store" where
  "updateResult s rid st res err now =
     (case updateOne s rid (updateData st res err now) of
        (matchedCount, s') \<Rightarrow>
          if matchedCount = 0 then (Some (NotFound rid), s') else (None, s'))"


section \<open>Webhook intake and the timeout sweeper (VendorDataFetchServer)\<close>

text \<open>The status cache: the Redis keys \<open>job:<requestId>\<close> and the job cached under each.\<close>

type_synonym cache = "string \<Rightarrow> job option"

definition invalidateJobCache :: "cache \<Rightarrow> string \<Rightarrow> cache" where
  "invalidateJobCache c rid = c(''job:'' @ rid := None)"

text \<open>
  The body of \<open>POST /vendor-webhook/:vendor\<close>, as \<open>handleVendorWebhook\<close> destructures it.
  An absent property is \<open>None\<close> (\<open>JUndefined\<close> for \<open>result\<close>); \<open>status\<close> and \<open>error\<close>, when
  present, have the types of the parameters of \<open>updateResult\<close> they are passed as.
\<close>

record webhook_body =
  wb_requestId :: "string option"
  wb_result :: jsval
  wb_status :: "status option"
  wb_error :: "string option"

record response =
  code :: nat
  body :: jsval

definition json_error :: "string \<Rightarrow> jsval" where
  "json_error m = JObj [(''error'', JStr m)]"

text \<open>
  \<open>handleVendorWebhook\<close>: 400 without a \<open>requestId\<close>; otherwise \<open>updateResult\<close> with
  \<open>status || 'complete'\<close>, then the cache entry is dropped and the answer is 200. Whatever
  \<open>updateResult\<close> throws lands in the handler's \<open>catch\<close>, which answers 500.
\<close>

definition handleVendorWebhook ::
  "store \<times> cache \<Rightarrow> webhook_body \<Rightarrow> int \<Rightarrow> response \<times> store \<times> cache" where
  "handleVendorWebhook sc b now =
     (case sc of (s, c) \<Rightarrow>
      if \<not> truthy_str (wb_requestId b)
      then (\<lparr> code = 400, body = json_error ''requestId is required'' \<rparr>, s, c)
      else
        let rid = the (wb_requestId b);
            st = (case wb_status b of None \<Rightarrow> Complete | Some x \<Rightarrow> x)
        in case updateResult s rid st (wb_result b) (wb_error b) now of
             (Some e, s') \<Rightarrow>
               (\<lparr> code = 500, body = json_error ''Internal server error'' \<rparr>, s', c)
           | (None, s') \<Rightarrow>
               (\<lparr> code = 200, body = JObj [(''success'', JBool True)] \<rparr>, s',
                invalidateJobCache c rid))"





section \<open>The circuit breaker (services/CircuitBreaker.ts)\<close>

datatype CircuitBreakerState = CLOSED | OPEN | HALF_OPEN

record CircuitBreakerOptions =
  failureThreshold :: nat
  recoveryTimeout :: int
  monitoringWindow :: int
  expectedLatency :: int
  latencyThreshold :: int
  minimumRequests :: nat

record CircuitBreaker =
  serviceName :: string
  options :: CircuitBreakerOptions
  state :: CircuitBreakerState
  failures :: nat
  successes :: nat
  totalRequests :: nat
  lastFailureTime :: "int option"
  lastStateChange :: int
  latencies :: "int list"
  requestTimes :: "int list"

text \<open>
  Every function that reads \<open>Date.now()\<close> takes the reading as \<open>now\<close>. One call of
  \<open>execute\<close> reads the clock when it is entered and again when the operation has settled;
  the reads made in one such stretch are taken to agree.
\<close>

definition newCircuitBreaker :: "string \<Rightarrow> CircuitBreakerOptions \<Rightarrow> int \<Rightarrow> CircuitBreaker" where
  "newCircuitBreaker nm opts now =
     \<lparr> serviceName = nm, options = opts, state = CLOSED, failures = 0, successes = 0,
       totalRequests = 0, lastFailureTime = None, lastStateChange = now,
       latencies = [], requestTimes = [] \<rparr>"

definition setState :: "CircuitBreaker \<Rightarrow> CircuitBreakerState \<Rightarrow> int \<Rightarrow> CircuitBreaker" where
  "setState cb newState now = cb\<lparr> state := newState, lastStateChange := now \<rparr>"

definition resetCounters :: "CircuitBreaker \<Rightarrow> CircuitBreaker" where
  "resetCounters cb = cb\<lparr> failures := 0, successes := 0, latencies := [] \<rparr>"

definition cleanupOldRequests :: "CircuitBreaker \<Rightarrow> int \<Rightarrow> CircuitBreaker" where
  "cleanupOldRequests cb now =
     (let cutoff = now - monitoringWindow (options cb)
      in cb\<lparr> requestTimes := filter (\<lambda>t. t > cutoff) (requestTimes cb) \<rparr>)"

text \<open>\<open>slice(-50)\<close> keeps the last 50 entries.\<close>

definition keepRecentLatencies :: "CircuitBreaker \<Rightarrow> CircuitBreaker" where
  "keepRecentLatencies cb =
     (if length (latencies cb) > 100
      then cb\<lparr> latencies := drop (length (latencies cb) - 50) (latencies cb) \<rparr>
      else cb)"

definition getRecentRequestCount :: "CircuitBreaker \<Rightarrow> int \<Rightarrow> nat" where
  "getRecentRequestCount cb now =
     (let cutoff = now - monitoringWindow (options cb)
      in length (filter (\<lambda>t. t > cutoff) (requestTimes cb)))"

definition getErrorRate :: "CircuitBreaker \<Rightarrow> real" where
  "getErrorRate cb =
     (let total = failures cb + successes cb
      in if total > 0 then real (failures cb) / real total else 0)"

definition getAverageLatency :: "CircuitBreaker \<Rightarrow> real" where
  "getAverageLatency cb =
     (if length (latencies cb) = 0 then 0
      else real_of_int (sum_list (latencies cb)) / real (length (latencies cb)))"

definition shouldOpen :: "CircuitBreaker \<Rightarrow> int \<Rightarrow> bool" where
  "shouldOpen cb now =
     (if totalRequests cb < minimumRequests (options cb) then False
      else if failures cb \<ge> failureThreshold (options cb) then True
      else if getErrorRate cb > 0.5 \<and>
              getRecentRequestCount cb now \<ge> minimumRequests (options cb) then True
      else if getAverageLatency cb > real_of_int (latencyThreshold (options cb) * 2) then True
      else False)"

definition shouldAttemptReset :: "CircuitBreaker \<Rightarrow> int \<Rightarrow> bool" where
  "shouldAttemptReset cb now =
     (case lastFailureTime cb of
        None \<Rightarrow> True
      | Some t \<Rightarrow> now - t \<ge> recoveryTimeout (options cb))"

definition onSuccess :: "CircuitBreaker \<Rightarrow> int \<Rightarrow> int \<Rightarrow> CircuitBreaker" where
  "onSuccess cb latency now =
     (let cb1 = keepRecentLatencies
                  (cb\<lparr> successes := successes cb + 1, latencies := latencies cb @ [latency] \<rparr>)
      in if state cb1 = HALF_OPEN then resetCounters (setState cb1 CLOSED now) else cb1)"

definition onFailure :: "CircuitBreaker \<Rightarrow> int \<Rightarrow> int \<Rightarrow> CircuitBreaker" where
  "onFailure cb latency now =
     (let cb1 = keepRecentLatencies
                  (cb\<lparr> failures := failures cb + 1, lastFailureTime := Some now,
                       latencies := latencies cb @ [latency] \<rparr>)
      in if shouldOpen cb1 now then setState cb1 OPEN now else cb1)"

datatype breaker_error =
    CircuitOpen string
  | OperationTimeout int
  | OperationError string

text \<open>
  An operation is what it does when called at a start time: it rejects with a message or
  resolves with a value, after a duration. \<open>race\<close> is
  \<open>Promise.race([operation(), createTimeoutPromise()])\<close>: the operation's outcome when it
  settles before \<open>latencyThreshold\<close>, the timeout's rejection otherwise; the second
  component is the time the race took.
\<close>

type_synonym 'a operation = "int \<Rightarrow> (string + 'a) \<times> int"

definition race :: "CircuitBreakerOptions \<Rightarrow> (string + 'a) \<times> int \<Rightarrow> (breaker_error + 'a) \<times> int" where
  "race opts settled =
     (case settled of (r, duration) \<Rightarrow>
      if duration < latencyThreshold opts
      then (case r of Inl m \<Rightarrow> (Inl (OperationError m), duration)
                    | Inr v \<Rightarrow> (Inr v, duration))
      else (Inl (OperationTimeout (latencyThreshold opts)), latencyThreshold opts))"

text \<open>
  The first lines of \<open>execute\<close>: an OPEN breaker moves to HALF_OPEN when
  \<open>shouldAttemptReset\<close>, and throws otherwise (\<open>None\<close>).
\<close>

definition admit :: "CircuitBreaker \<Rightarrow> int \<Rightarrow> CircuitBreaker option" where
  "admit cb now =
     (if state cb = OPEN
      then (if shouldAttemptReset cb now then Some (setState cb HALF_OPEN now) else None)
      else Some cb)"

text \<open>
  The result of \<open>execute\<close>: the breaker afterwards, whether \<open>operation()\<close> was called, and
  what \<open>execute\<close> returned or threw.
\<close>

record 'a execution =
  breaker :: CircuitBreaker
  invoked :: bool
  outcome :: "breaker_error + 'a"

definition openMessage :: "string \<Rightarrow> string" where
  "openMessage nm = ''Circuit breaker is OPEN for '' @ nm @ ''. Service unavailable.''"

definition execute :: "CircuitBreaker \<Rightarrow> int \<Rightarrow> 'a operation \<Rightarrow> 'a execution" where
  "execute cb now operation =
     (case admit cb now of
        None \<Rightarrow> \<lparr> breaker = cb, invoked = False,
                  outcome = Inl (CircuitOpen (openMessage (serviceName cb))) \<rparr>
      | Some cb0 \<Rightarrow>
          let startTime = now;
              cb1 = cleanupOldRequests
                      (cb0\<lparr> totalRequests := totalRequests cb0 + 1,
                            requestTimes := requestTimes cb0 @ [startTime] \<rparr>) now
          in case race (options cb) (operation startTime) of
               (Inr v, latency) \<Rightarrow>
                 \<lparr> breaker = onSuccess cb1 latency (startTime + latency), invoked = True,
                   outcome = Inr v \<rparr>
             | (Inl e, latency) \<Rightarrow>
                 \<lparr> breaker = onFailure cb1 latency (startTime + latency), invoked = True,
                   outcome = Inl e \<rparr>)"

definition forceOpen :: "CircuitBreaker \<Rightarrow> int \<Rightarrow> CircuitBreaker" where
  "forceOpen cb now = setState cb OPEN now"

definition forceClose :: "CircuitBreaker \<Rightarrow> int \<Rightarrow> CircuitBreaker" where
  "forceClose cb now = resetCounters (setState cb CLOSED now)"

definition reset :: "CircuitBreaker \<Rightarrow> int \<Rightarrow> CircuitBreaker" where
  "reset cb now =
     (resetCounters (setState cb CLOSED now))
       \<lparr> totalRequests := 0, requestTimes := [], lastFailureTime := None \<rparr>"

text \<open>\<open>CIRCUIT_BREAKER_CONFIGS\<close>.\<close>

definition VENDOR_API :: CircuitBreakerOptions where
  "VENDOR_API = \<lparr> failureThreshold = 5, recoveryTimeout = 30000, monitoringWindow = 60000,
                  expectedLatency = 1000, latencyThreshold = 5000, minimumRequests = 3 \<rparr>"

definition DATABASE :: CircuitBreakerOptions where
  "DATABASE = \<lparr> failureThreshold = 3, recoveryTimeout = 10000, monitoringWindow = 30000,
                expectedLatency = 100, latencyThreshold = 1000, minimumRequests = 5 \<rparr>"

section \<open>The token bucket (RateLimiter, TokenBucketRateLimiter)\<close>

text \<open>
  \<open>RateLimiter\<close> of the vendor manager and \<open>TokenBucketRateLimiter\<close> of the vendor client
  are the same class but for a log line. Token counts are real numbers (the rounding of
  JavaScript's doubles is left out); times are the millisecond readings of \<open>Date.now()\<close>.
\<close>

record RateLimiter =
  tokens :: real
  capacity :: real
  refillRate :: real
  lastRefill :: int

definition newRateLimiter :: "real \<Rightarrow> int \<Rightarrow> RateLimiter" where
  "newRateLimiter requestsPerMinute now =
     \<lparr> tokens = requestsPerMinute, capacity = requestsPerMinute,
       refillRate = requestsPerMinute / 60, lastRefill = now \<rparr>"

definition refillTokens :: "RateLimiter \<Rightarrow> int \<Rightarrow> RateLimiter" where
  "refillTokens rl now =
     (let timePassed = real_of_int (now - lastRefill rl) / 1000;
          tokensToAdd = timePassed * refillRate rl
      in rl\<lparr> tokens := min (capacity rl) (tokens rl + tokensToAdd), lastRefill := now \<rparr>)"

definition waitTime :: "RateLimiter \<Rightarrow> real" where
  "waitTime rl = (1 - tokens rl) / refillRate rl * 1000"

text \<open>
  \<open>waitForSlot\<close> refills, takes a token if there is one, and otherwise sleeps and calls
  itself. Each round reads the clock once; the readings of the successive rounds are the
  list given, and the call has not returned (\<open>None\<close>) when the readings are used up.
\<close>

fun waitForSlot :: "RateLimiter \<Rightarrow> int list \<Rightarrow> RateLimiter option" where
  "waitForSlot rl [] = None"
| "waitForSlot rl (now # later) =
     (let rl1 = refillTokens rl now
      in if tokens rl1 \<ge> 1 then Some (rl1\<lparr> tokens := tokens rl1 - 1 \<rparr>)
         else waitForSlot rl1 later)"

text \<open>The limiter after a sequence of \<open>waitForSlot\<close> calls, each with its clock readings.\<close>

fun waitForSlots :: "RateLimiter \<Rightarrow> int list list \<Rightarrow> RateLimiter option" where
  "waitForSlots rl [] = Some rl"
| "waitForSlots rl (readings # others) =
     (case waitForSlot rl readings of
        None \<Rightarrow> None
      | Some rl' \<Rightarrow> waitForSlots rl' others)"

section \<open>The vendor manager (vendors/VendorManager)\<close>

record VendorConfig =
  name :: string
  url :: string
  rateLimit :: nat
  isAsync :: bool
  timeout :: int

datatype vendor_status = VendorSuccess | VendorError

record VendorResponse =
  data :: jsval
  vr_isAsync :: bool
  vr_status :: vendor_status
  vr_error :: "string option"

text \<open>The getters of \<open>Configuration\<close> the vendor manager reads.\<close>

record Configuration =
  getSyncVendorUrl :: string
  getAsyncVendorUrl :: string
  getApiBaseUrl :: string

record VendorManager =
  config :: Configuration
  vendors :: "string \<Rightarrow> VendorConfig option"
  rateLimiters :: "string \<Rightarrow> RateLimiter option"

definition orElse :: "string \<Rightarrow> string \<Rightarrow> string" where
  "orElse a b = (if a \<noteq> [] then a else b)"

definition syncVendor :: "Configuration \<Rightarrow> VendorConfig" where
  "syncVendor cfg =
     \<lparr> name = ''syncVendor'',
       url = orElse (getSyncVendorUrl cfg) ''http://localhost:3001/api/data'',
       rateLimit = 60, isAsync = False, timeout = 5000 \<rparr>"

definition asyncVendor :: "Configuration \<Rightarrow> VendorConfig" where
  "asyncVendor cfg =
     \<lparr> name = ''asyncVendor'',
       url = orElse (getAsyncVendorUrl cfg) ''http://localhost:3002/api/data'',
       rateLimit = 30, isAsync = True, timeout = 15000 \<rparr>"

definition newVendorManager :: "Configuration \<Rightarrow> int \<Rightarrow> VendorManager" where
  "newVendorManager cfg now =
     \<lparr> config = cfg,
       vendors = [''syncVendor'' \<mapsto> syncVendor cfg, ''asyncVendor'' \<mapsto> asyncVendor cfg],
       rateLimiters =
         [''syncVendor'' \<mapsto> newRateLimiter (real (rateLimit (syncVendor cfg))) now,
          ''asyncVendor'' \<mapsto> newRateLimiter (real (rateLimit (asyncVendor cfg))) now] \<rparr>"

text \<open>
  What \<open>axios.post\<close> does: it resolves with a response (status, data) or throws. The
  message of a thrown value is chosen as the \<open>catch\<close> of \<open>callVendor\<close> chooses it.
\<close>

datatype thrown =
    AxiosError "string option" string
  | PlainError string
  | NotAnError

fun errorMessage :: "thrown \<Rightarrow> string" where
  "errorMessage (AxiosError responseMessage message) =
     (if truthy_str responseMessage then the responseMessage
      else if message \<noteq> [] then message
      else ''HTTP request failed'')"
| "errorMessage (PlainError message) = message"
| "errorMessage NotAnError = ''Unknown vendor error''"

text \<open>A POST as sent: the url, the body and the \<open>X-Request-ID\<close> header.\<close>

record post =
  post_url :: string
  post_body :: jsval
  post_requestId :: string

text \<open>
  The surroundings of one \<open>callVendor\<close>: the clock readings of the limiter's rounds, the
  text of \<open>new Date().toISOString()\<close>, and the vendor's answer to a POST.
\<close>

record call_env =
  clock :: "int list"
  isoTimestamp :: string
  axios_post :: "post \<Rightarrow> thrown + nat \<times> jsval"

text \<open>
  \<open>{ ...payload, requestId, timestamp }\<close>: the own properties of an object payload, with
  the two keys written over them. (The index keys a spread array or string would give are
  left out.)
\<close>

fun setProp :: "string \<Rightarrow> jsval \<Rightarrow> (string \<times> jsval) list \<Rightarrow> (string \<times> jsval) list" where
  "setProp k v [] = [(k, v)]"
| "setProp k v ((k', v') # fs) =
     (if k' = k then (k, v) # fs else (k', v') # setProp k v fs)"

fun spread :: "jsval \<Rightarrow> (string \<times> jsval) list" where
  "spread (JObj fs) = fs"
| "spread v = []"

definition requestData :: "VendorManager \<Rightarrow> VendorConfig \<Rightarrow> string \<Rightarrow> jsval \<Rightarrow> string \<Rightarrow> string \<Rightarrow> jsval" where
  "requestData vm v vendorName pl rid ts =
     (let fs = setProp ''timestamp'' (JStr ts) (setProp ''requestId'' (JStr rid) (spread pl))
      in JObj (if isAsync v
               then setProp ''webhookUrl''
                      (JStr (getApiBaseUrl (config vm) @ ''/vendor-webhook/'' @ vendorName)) fs
               else fs))"

datatype vendor_error = UnknownVendor string | NoRateLimiter string

text \<open>
  The result of \<open>callVendor\<close>: what it returned or threw, the manager afterwards, and the
  POSTs it sent.
\<close>

record call_result =
  returned :: "vendor_error + VendorResponse"
  manager :: VendorManager
  sent :: "post list"

text \<open>
  \<open>VendorManager.callVendor\<close>; \<open>None\<close> when \<open>waitForSlot\<close> has not returned.
  (\<open>VendorClient.callVendor\<close> has the same body, with the request built and sent by two
  helper methods.)
\<close>

definition callVendor ::
  "VendorManager \<Rightarrow> string \<Rightarrow> jsval \<Rightarrow> string \<Rightarrow> call_env \<Rightarrow> call_result option" where
  "callVendor vm vendorName pl rid env =
     (case vendors vm vendorName of
        None \<Rightarrow> Some \<lparr> returned = Inl (UnknownVendor vendorName), manager = vm, sent = [] \<rparr>
      | Some v \<Rightarrow>
          (case rateLimiters vm vendorName of
             None \<Rightarrow> Some \<lparr> returned = Inl (NoRateLimiter vendorName), manager = vm, sent = [] \<rparr>
           | Some rl \<Rightarrow>
               (case waitForSlot rl (clock env) of
                  None \<Rightarrow> None
                | Some rl' \<Rightarrow>
                    let vm' = vm\<lparr> rateLimiters := (rateLimiters vm)(vendorName \<mapsto> rl') \<rparr>;
                        p = \<lparr> post_url = url v,
                              post_body = requestData vm v vendorName pl rid (isoTimestamp env),
                              post_requestId = rid \<rparr>
                    in (case axios_post env p of
                          Inr (httpStatus, d) \<Rightarrow>
                            Some \<lparr> returned = Inr \<lparr> data = d, vr_isAsync = isAsync v,
                                                    vr_status = VendorSuccess, vr_error = None \<rparr>,
                                   manager = vm', sent = [p] \<rparr>
                        | Inl err \<Rightarrow>
                            Some \<lparr> returned = Inr \<lparr> data = JNull, vr_isAsync = isAsync v,
                                                    vr_status = VendorError,
                                                    vr_error = Some (errorMessage err) \<rparr>,
                                   manager = vm', sent = [p] \<rparr>))))"

text \<open>
  The process's services: the worker's vendor manager and the breakers a
  \<open>CircuitBreakerManager\<close> holds, by service name. \<open>dispatch\<close> is the vendor call as the
  worker makes it, \<open>this.vendorManager.callVendor(vendor, jobPayload, requestId)\<close>.
\<close>

record services =
  vendorManager :: VendorManager
  breakers :: "string \<Rightarrow> CircuitBreaker option"

definition dispatch ::
  "services \<Rightarrow> string \<Rightarrow> jsval \<Rightarrow> string \<Rightarrow> call_env \<Rightarrow> (call_result \<times> services) option" where
  "dispatch sv vendorName pl rid env =
     (case callVendor (vendorManager sv) vendorName pl rid env of
        None \<Rightarrow> None
      | Some r \<Rightarrow> Some (r, sv\<lparr> vendorManager := manager r \<rparr>))"

section \<open>The worker (BackgroundWorker)\<close>

text \<open>A stream entry as \<open>xReadGroup\<close> delivers it.\<close>

record message =
  msg_id :: string
  msg_requestId :: string
  msg_payload :: string

text \<open>
  The worker's world: the \<open>jobs\<close> collection, its services, the POSTs sent so far and the
  stream entries acknowledged so far.
\<close>

record worker =
  jobs :: store
  svc :: services
  posts :: "post list"
  acked :: "string list"

text \<open>
  The surroundings of one \<open>processJob\<close>: \<open>JSON.parse\<close> (a syntax error is \<open>Inl\<close>), the
  scrubbing of an object by \<open>DataCleaner.cleanObject\<close>, the dates of the three writes, and the
  vendor call's surroundings.
\<close>

record job_env =
  JSON_parse :: "string \<Rightarrow> string + jsval"
  cleanObject :: "jsval \<Rightarrow> jsval"
  t_status :: int
  t_vendor :: int
  t_result :: int
  call :: call_env

text \<open>
  \<open>DataCleaner.clean\<close>: data that is falsy or not an object is returned as it is; an object
  is scrubbed.
\<close>

definition clean :: "(jsval \<Rightarrow> jsval) \<Rightarrow> jsval \<Rightarrow> jsval" where
  "clean scrub d = (if \<not> truthy d \<or> \<not> typeof_object d then d else scrub d)"

fun getProp :: "jsval \<Rightarrow> string \<Rightarrow> jsval" where
  "getProp (JObj fs) k = (case map_of fs k of None \<Rightarrow> JUndefined | Some v \<Rightarrow> v)"
| "getProp v k = JUndefined"

text \<open>
  \<open>selectVendor\<close>. Reading \<open>payload.type\<close> of \<open>null\<close> throws a \<open>TypeError\<close>.
\<close>

definition selectVendor :: "jsval \<Rightarrow> string + string" where
  "selectVendor pl =
     (if pl = JNull \<or> pl = JUndefined
      then Inl ''Cannot read properties of null (reading 'type')''
      else if getProp pl ''type'' = JStr ''sync'' \<or> \<not> truthy (getProp pl ''type'')
      then Inr ''syncVendor''
      else Inr ''asyncVendor'')"

text \<open>
  The worker's own \<open>updateJobStatus\<close> and \<open>updateJobResult\<close>: \<open>updateOne\<close> again, but a job
  that is not found is only logged, and \<open>result\<close> enters the update when
  \<open>result !== null\<close>.
\<close>

definition updateJobStatus :: "store \<Rightarrow> string \<Rightarrow> status \<Rightarrow> int \<Rightarrow> store" where
  "updateJobStatus s rid st now =
     snd (updateOne s rid \<lparr> set_status = Some st, set_result = None, set_error = None,
                             set_vendor = None, set_updatedAt = now \<rparr>)"

definition updateJobResult :: "store \<Rightarrow> string \<Rightarrow> status \<Rightarrow> jsval \<Rightarrow> string option \<Rightarrow> int \<Rightarrow> store" where
  "updateJobResult s rid st res err now =
     snd (updateOne s rid \<lparr> set_status = Some st,
                             set_result = (if res \<noteq> JNull then Some res else None),
                             set_error = (if truthy_str err then err else None),
                             set_vendor = None, set_updatedAt = now \<rparr>)"

definition setVendor :: "store \<Rightarrow> string \<Rightarrow> string \<Rightarrow> int \<Rightarrow> store" where
  "setVendor s rid v now =
     snd (updateOne s rid \<lparr> set_status = None, set_result = None, set_error = None,
                             set_vendor = Some v, set_updatedAt = now \<rparr>)"

text \<open>
  \<open>processJob\<close>. The job is marked \<open>processing\<close>, the payload parsed, the vendor chosen and
  written, the vendor called. An async vendor's job is left as it is; otherwise the cleaned
  data is written with status \<open>complete\<close>. An exception on the way is caught and the job
  written \<open>failed\<close> with the exception's message. \<open>None\<close>: the vendor call has not returned.
\<close>

definition processJob :: "worker \<Rightarrow> message \<Rightarrow> job_env \<Rightarrow> worker option" where
  "processJob w m env =
     (let rid = msg_requestId m;
          s1 = updateJobStatus (jobs w) rid Processing (t_status env)
      in case JSON_parse env (msg_payload m) of
           Inl e \<Rightarrow> Some (w\<lparr> jobs := updateJobResult s1 rid Failed JNull (Some e) (t_result env) \<rparr>)
         | Inr jobPayload \<Rightarrow>
             (case selectVendor jobPayload of
                Inl e \<Rightarrow>
                  Some (w\<lparr> jobs := updateJobResult s1 rid Failed JNull (Some e) (t_result env) \<rparr>)
              | Inr v \<Rightarrow>
                  let s2 = setVendor s1 rid v (t_vendor env)
                  in (case dispatch (svc w) v jobPayload rid (call env) of
                        None \<Rightarrow> None
                      | Some (r, sv) \<Rightarrow>
                          (case returned r of
                             Inl (UnknownVendor n) \<Rightarrow>
                               Some (w\<lparr> jobs := updateJobResult s2 rid Failed JNull
                                                  (Some (''Unknown vendor: '' @ n)) (t_result env),
                                        svc := sv, posts := posts w @ sent r \<rparr>)
                           | Inl (NoRateLimiter n) \<Rightarrow>
                               Some (w\<lparr> jobs := updateJobResult s2 rid Failed JNull
                                                  (Some (''Rate limiter not found for vendor: '' @ n))
                                                  (t_result env),
                                        svc := sv, posts := posts w @ sent r \<rparr>)
                           | Inr vendorResponse \<Rightarrow>
                               if vr_isAsync vendorResponse
                               then Some (w\<lparr> jobs := s2, svc := sv, posts := posts w @ sent r \<rparr>)
                               else
                                 let cleanedData = clean (cleanObject env) (data vendorResponse)
                                 in Some (w\<lparr> jobs := updateJobResult s2 rid Complete cleanedData
                                                        None (t_result env),
                                            svc := sv, posts := posts w @ sent r \<rparr>)))))"

text \<open>
  One round of the loop in \<open>start\<close> for a delivered message: \<open>processJob\<close>, then
  \<open>xAck\<close>.
\<close>

definition handleMessage :: "worker \<Rightarrow> message \<Rightarrow> job_env \<Rightarrow> worker option" where
  "handleMessage w m env =
     (case processJob w m env of
        None \<Rightarrow> None
      | Some w' \<Rightarrow> Some (w'\<lparr> acked := acked w' @ [msg_id m] \<rparr>))"

section \<open>Sample values\<close>

text \<open>Concrete jobs, messages and surroundings, used where a property is evaluated.\<close>

definition sampleId :: string where
  "sampleId = ''123e4567-e89b-42d3-a456-426614174000''"

text \<open>A job as \<open>handleCreateJob\<close> builds it for the body \<open>{ type: 'sync' }\<close>.\<close>

definition syncJob :: job where
  "syncJob = \<lparr> requestId = sampleId, status = Pending,
               payload = JObj [(''type'', JStr ''sync'')], result = JUndefined,
               error = None, vendor = None, createdAt = 1000, updatedAt = 1000 \<rparr>"

text \<open>The same job with white space around its id.\<close>

definition paddedJob :: job where
  "paddedJob = syncJob\<lparr> requestId := '' 123e4567-e89b-42d3-a456-426614174000 '' \<rparr>"

text \<open>A stored async job that has failed, and one that is being processed.\<close>

definition failedJob :: job where
  "failedJob = \<lparr> requestId = sampleId, status = Failed,
                 payload = JObj [(''type'', JStr ''async'')], result = JNull,
                 error = Some ''Simulated async processing error'',
                 vendor = Some ''asyncVendor'', createdAt = 1000, updatedAt = 5000 \<rparr>"


text \<open>A stored sync job that is complete.\<close>

definition completeJob :: job where
  "completeJob = \<lparr> requestId = sampleId, status = Complete,
                   payload = JObj [(''type'', JStr ''sync'')], result = JObj [(''ok'', JBool True)],
                   error = None, vendor = Some ''syncVendor'', createdAt = 1000, updatedAt = 3000 \<rparr>"

definition emptyCache :: cache where
  "emptyCache = (\<lambda>k. None)"

definition cfg0 :: Configuration where
  "cfg0 = \<lparr> getSyncVendorUrl = ''http://localhost:3001/api/data'',
            getAsyncVendorUrl = ''http://localhost:3002/api/data'',
            getApiBaseUrl = ''http://localhost:3000'' \<rparr>"

text \<open>
  A breaker of the sync vendor that opened on a failure at time 1000 and whose recovery
  timeout (30 s) has not passed at time 2000.
\<close>

definition openBreaker :: CircuitBreaker where
  "openBreaker = (newCircuitBreaker ''syncVendor'' VENDOR_API 0)
                   \<lparr> state := OPEN, failures := 5, totalRequests := 5,
                     lastFailureTime := Some 1000, lastStateChange := 1000 \<rparr>"

definition services0 :: services where
  "services0 = \<lparr> vendorManager = newVendorManager cfg0 0,
                 breakers = [''syncVendor'' \<mapsto> openBreaker] \<rparr>"

text \<open>
  The stream entry of \<open>syncJob\<close>. Its payload is the JSON text of \<open>{ type: 'sync' }\<close>
  (\<open>CHR 0x22\<close> is the double quote), which \<open>parse0\<close> parses as \<open>JSON.parse\<close> does.
\<close>

definition syncText :: string where
  "syncText = ''{'' @ [CHR 0x22] @ ''type'' @ [CHR 0x22] @ '':'' @
              [CHR 0x22] @ ''sync'' @ [CHR 0x22] @ ''}''"

definition msg0 :: message where
  "msg0 = \<lparr> msg_id = ''1-0'', msg_requestId = sampleId, msg_payload = syncText \<rparr>"

definition parse0 :: "string \<Rightarrow> string + jsval" where
  "parse0 txt = (if txt = syncText then Inr (JObj [(''type'', JStr ''sync'')])
                 else Inl ''Unexpected token'')"

text \<open>A vendor that answers 500, and one that answers 200 with a body.\<close>

definition vendorDown :: "post \<Rightarrow> thrown + nat \<times> jsval" where
  "vendorDown p = Inl (AxiosError None ''Request failed with status code 500'')"

definition vendorUp :: "post \<Rightarrow> thrown + nat \<times> jsval" where
  "vendorUp p = Inr (200, JObj [(''ok'', JBool True)])"

definition envWith :: "(post \<Rightarrow> thrown + nat \<times> jsval) \<Rightarrow> job_env" where
  "envWith vendorAnswer =
     \<lparr> JSON_parse = parse0, cleanObject = (\<lambda>d. d), t_status = 2000, t_vendor = 2001,
       t_result = 2500,
       call = \<lparr> clock = [2002], isoTimestamp = ''1970-01-01T00:00:02.002Z'',
                axios_post = vendorAnswer \<rparr> \<rparr>"

definition workerWith :: "store \<Rightarrow> worker" where
  "workerWith s = \<lparr> jobs = s, svc = services0, posts = [], acked = [] \<rparr>"

text \<open>An operation that rejects after 5 ms, and one that resolves after 5 ms.\<close>

definition failing :: "unit operation" where
  "failing startTime = (Inl ''down'', 5)"

definition succeeding :: "unit operation" where
  "succeeding startTime = (Inr (), 5)"


text \<open>What is looked at in a collection, a worker or a call after a step.\<close>

definition summary :: "job \<Rightarrow> status \<times> jsval \<times> string option" where
  "summary j = (status j, result j, error j)"

definition jobsAfter :: "worker option \<Rightarrow> store" where
  "jobsAfter r = (case r of None \<Rightarrow> [] | Some w \<Rightarrow> jobs w)"

definition postedTo :: "worker option \<Rightarrow> string list" where
  "postedTo r = (case r of None \<Rightarrow> [] | Some w \<Rightarrow> map post_url (posts w))"

definition ackedAfter :: "worker option \<Rightarrow> string list" where
  "ackedAfter r = (case r of None \<Rightarrow> [] | Some w \<Rightarrow> acked w)"

definition sentTo :: "(call_result \<times> services) option \<Rightarrow> string list" where
  "sentTo r = (case r of None \<Rightarrow> [] | Some x \<Rightarrow> map post_url (sent (fst x)))"


text \<open>A new \<open>DATABASE\<close> breaker after three calls of the failing operation.\<close>

definition afterThreeFailures :: CircuitBreaker where
  "afterThreeFailures =
     breaker (execute (breaker (execute (breaker (execute
       (newCircuitBreaker ''database'' DATABASE 0) 10 failing)) 20 failing)) 30 failing)"

text \<open>
  A new breaker of the sync vendor (recovery timeout 30 s) opened by hand at time 1000: no
  failure is recorded.
\<close>

definition forcedOpen :: CircuitBreaker where
  "forcedOpen = forceOpen (newCircuitBreaker ''syncVendor'' VENDOR_API 0) 1000"

text \<open>
  A limiter of 60 requests per minute (one token per second) with no token left, as 60
  calls at its first instant leave it.
\<close>

definition drained :: RateLimiter where
  "drained = (newRateLimiter 60 0)\<lparr> tokens := 0 \<rparr>"

text \<open>A webhook that reports a failure without an error text.\<close>

definition failedHook :: webhook_body where
  "failedHook = \<lparr> wb_requestId = Some sampleId, wb_result = JUndefined,
                  wb_status = Some Failed, wb_error = None \<rparr>"

text \<open>A webhook for a job that is not stored.\<close>

definition unknownHook :: webhook_body where
  "unknownHook = \<lparr> wb_requestId = Some sampleId, wb_result = JObj [(''ok'', JBool True)],
                   wb_status = Some Complete, wb_error = None \<rparr>"

text \<open>
  Two \<open>DATABASE\<close> breakers with two failures each: one has seen three requests, the other
  six.
\<close>

definition twoFailures :: CircuitBreaker where
  "twoFailures = (newCircuitBreaker ''database'' DATABASE 0)
                   \<lparr> failures := 2, totalRequests := 3, lastFailureTime := Some 20 \<rparr>"

definition twoOfFive :: CircuitBreaker where
  "twoOfFive = (newCircuitBreaker ''database'' DATABASE 0)
                 \<lparr> failures := 2, successes := 3, totalRequests := 6, lastFailureTime := Some 20 \<rparr>"

section \<open>Properties of stored collections\<close>

text \<open>
  What \<open>create\<close> establishes of every collection: the ids are pairwise different (the unique
  index) and trimmed (the schema's setter).
\<close>

definition wf_store :: "store \<Rightarrow> bool" where
  "wf_store s = (distinct (map requestId s) \<and> list_all (\<lambda>j. trim (requestId j) = requestId j) s)"


section \<open>The repository\<close>

lemma updateFirst_none: "find P xs = None \<Longrightarrow> updateFirst P f xs = (0, xs)"
  by (induction xs) (auto split: if_splits)

lemma updateFirst_some:
  "find P xs = Some x \<Longrightarrow>
   \<exists>pre post. xs = pre @ x # post \<and> find P pre = None \<and>
              updateFirst P f xs = (1, pre @ f x # post)"
proof (induction xs)
  case Nil
  then show ?case by simp
next
  case (Cons y ys)
  show ?case
  proof (cases "P y")
    case True
    with Cons.prems have "y = x" by simp
    with True have "y # ys = [] @ x # ys \<and> find P [] = None \<and>
        updateFirst P f (y # ys) = (1, [] @ f x # ys)" by simp
    then show ?thesis by blast
  next
    case False
    with Cons.prems have "find P ys = Some x" by simp
    from Cons.IH[OF this] obtain pre post where
      h: "ys = pre @ x # post" "find P pre = None" "updateFirst P f ys = (1, pre @ f x # post)"
      by blast
    with False have "y # ys = (y # pre) @ x # post \<and> find P (y # pre) = None \<and>
        updateFirst P f (y # ys) = (1, (y # pre) @ f x # post)" by simp
    then show ?thesis by blast
  qed
qed

lemma apply_updateData:
  "apply_set (updateData st res err now) j =
     j\<lparr> status := st,
        result := (if res = JUndefined then result j else res),
        error := (if truthy_str err then err else error j),
        updatedAt := now \<rparr>"
  by (cases err) (simp_all add: apply_set_def updateData_def)

lemma trim_sampleId: "trim sampleId = sampleId"
  by code_simp

lemma uuid_sampleId: "uuidRegex sampleId"
  by code_simp

text \<open>
  C10. \<open>updateResult\<close> changes one document at most, the first whose id is the one asked
  for, and of that document only \<open>status\<close>, \<open>updatedAt\<close>, \<open>result\<close> when a result was
  passed (\<open>result !== undefined\<close>) and \<open>error\<close> when a non-empty error was passed;
  \<open>requestId\<close>, \<open>payload\<close>, \<open>vendor\<close> and \<open>createdAt\<close> stay. So a failed job written
  \<open>complete\<close> keeps its old error. Without a document of that id the collection is left as it
  is and the call throws.
\<close>

theorem updateResult_frame:
  "(findById s rid = None \<longrightarrow>
      updateResult s rid st res err now = (Some (NotFound rid), s)) \<and>
   (\<forall>j. findById s rid = Some j \<longrightarrow>
      (\<exists>pre post. s = pre @ j # post \<and> findById pre rid = None \<and>
         updateResult s rid st res err now =
           (None, pre @ j\<lparr> status := st,
                            result := (if res = JUndefined then result j else res),
                            error := (if truthy_str err then err else error j),
                            updatedAt := now \<rparr> # post)))"
proof (intro conjI allI impI)
  assume "findById s rid = None"
  then show "updateResult s rid st res err now = (Some (NotFound rid), s)"
    by (simp add: updateResult_def updateOne_def findById_def updateFirst_none)
next
  fix j assume "findById s rid = Some j"
  then have "find (\<lambda>x. requestId x = trim rid) s = Some j" by (simp add: findById_def)
  from updateFirst_some[OF this, of "apply_set (updateData st res err now)"]
  obtain pre post where h: "s = pre @ j # post" "find (\<lambda>x. requestId x = trim rid) pre = None"
    "updateFirst (\<lambda>x. requestId x = trim rid) (apply_set (updateData st res err now)) s
       = (1, pre @ apply_set (updateData st res err now) j # post)" by blast
  then show "\<exists>pre post. s = pre @ j # post \<and> findById pre rid = None \<and>
         updateResult s rid st res err now =
           (None, pre @ j\<lparr> status := st,
                            result := (if res = JUndefined then result j else res),
                            error := (if truthy_str err then err else error j),
                            updatedAt := now \<rparr> # post)"
    by (auto simp: updateResult_def updateOne_def findById_def apply_updateData)
qed

text \<open>
  At a stored failed job: written \<open>complete\<close> with a result and no error, it keeps its
  error string beside the new result; on the empty collection the call throws and stores
  nothing.
\<close>

theorem updateResult_frame_witness:
  "findById [failedJob] sampleId = Some failedJob \<and>
   updateResult [failedJob] sampleId Complete (JBool True) None 9000 =
     (None, [failedJob\<lparr> status := Complete, result := JBool True, updatedAt := 9000 \<rparr>]) \<and>
   error (failedJob\<lparr> status := Complete, result := JBool True, updatedAt := 9000 \<rparr>) =
     Some ''Simulated async processing error'' \<and>
   findById [] sampleId = None \<and>
   updateResult [] sampleId Complete JUndefined None 9000 = (Some (NotFound sampleId), [])"
proof -
  have 1: "findById [failedJob] sampleId = Some failedJob"
    by (simp add: findById_def trim_sampleId failedJob_def)
  have 2: "findById [] sampleId = None" by (simp add: findById_def)
  from updateResult_frame[of "[failedJob]" sampleId Complete "JBool True" None 9000] 1
  obtain pre post where h: "[failedJob] = pre @ failedJob # post"
    "updateResult [failedJob] sampleId Complete (JBool True) None 9000 =
       (None, pre @ failedJob\<lparr> status := Complete,
                 result := (if JBool True = JUndefined then result failedJob else JBool True),
                 error := (if truthy_str None then None else error failedJob),
                 updatedAt := 9000 \<rparr> # post)"
    by blast
  from h(1) have "pre = [] \<and> post = []" by (cases pre) simp_all
  with h(2) have a: "updateResult [failedJob] sampleId Complete (JBool True) None 9000 =
     (None, [failedJob\<lparr> status := Complete, result := JBool True, updatedAt := 9000 \<rparr>])"
    by simp
  from updateResult_frame[of "[]" sampleId Complete JUndefined None 9000] 2
  have b: "updateResult [] sampleId Complete JUndefined None 9000 = (Some (NotFound sampleId), [])"
    by blast
  from 1 2 a b show ?thesis by (simp add: failedJob_def)
qed

section \<open>Creating a job\<close>

lemma validate_requestId_bad:
  "\<not> uuidRegex (requestId doc) \<Longrightarrow> validate doc \<noteq> []"
  by (simp add: validate_def validate_requestId_def List.map_filter_simps)

lemma validate_payload_bad:
  "payload doc = JNull \<or> \<not> typeof_object (payload doc) \<Longrightarrow> validate doc \<noteq> []"
  by (auto simp: validate_def validate_payload_def List.map_filter_simps split: option.splits)

lemma validate_ok:
  "uuidRegex (requestId doc) \<Longrightarrow> payload doc \<noteq> JNull \<Longrightarrow> typeof_object (payload doc) \<Longrightarrow>
   (\<forall>m. error doc = Some m \<longrightarrow> length m \<le> 1000) \<Longrightarrow> validate doc = []"
  by (cases "error doc")
     (auto simp: validate_def validate_requestId_def validate_payload_def validate_error_def
        List.map_filter_simps uuidRegex_def uuidPattern_def)

lemma JobModel_fields:
  "requestId (JobModel j) = trim (requestId j)"
  "payload (JobModel j) = payload j"
  "error (JobModel j) = error j"
  "status (JobModel j) = status j"
  by (simp_all add: JobModel_def)

text \<open>
  C9, as the code has it. \<open>create\<close> throws a validation error for a job whose id, once
  trimmed, does not match the UUID pattern, and for a job whose payload is null or not an
  object; on a collection that has the unique index it throws a duplicate-id error for a
  job that passes validation and the \<open>pre('save')\<close> rules and whose trimmed id is stored
  already; and whenever it throws, the collection is as it was.
\<close>

theorem create_rejects:
  "(\<not> uuidRegex (trim (requestId j)) \<longrightarrow>
      (\<exists>msgs. create uniqueIndex s j = (Some (ValidationError msgs), s))) \<and>
   (payload j = JNull \<or> \<not> typeof_object (payload j) \<longrightarrow>
      (\<exists>msgs. create uniqueIndex s j = (Some (ValidationError msgs), s))) \<and>
   (uniqueIndex \<and>
    uuidRegex (trim (requestId j)) \<and> payload j \<noteq> JNull \<and> typeof_object (payload j) \<and>
    (\<forall>m. error j = Some m \<longrightarrow> length m \<le> 1000) \<and> preSave (JobModel j) = None \<and>
    trim (requestId j) \<in> set (map requestId s) \<longrightarrow>
      create uniqueIndex s j = (Some (DuplicateId (requestId j)), s)) \<and>
   (\<forall>e s'. create uniqueIndex s j = (Some e, s') \<longrightarrow> s' = s)"
proof (intro conjI impI allI)
  assume "\<not> uuidRegex (trim (requestId j))"
  then have "validate (JobModel j) \<noteq> []"
    by (intro validate_requestId_bad) (simp add: JobModel_fields)
  then show "\<exists>msgs. create uniqueIndex s j = (Some (ValidationError msgs), s)"
    by (simp add: create_def Let_def)
next
  assume "payload j = JNull \<or> \<not> typeof_object (payload j)"
  then have "validate (JobModel j) \<noteq> []"
    by (intro validate_payload_bad) (simp add: JobModel_fields)
  then show "\<exists>msgs. create uniqueIndex s j = (Some (ValidationError msgs), s)"
    by (simp add: create_def Let_def)
next
  assume a: "uniqueIndex \<and>
    uuidRegex (trim (requestId j)) \<and> payload j \<noteq> JNull \<and> typeof_object (payload j) \<and>
    (\<forall>m. error j = Some m \<longrightarrow> length m \<le> 1000) \<and> preSave (JobModel j) = None \<and>
    trim (requestId j) \<in> set (map requestId s)"
  then have "validate (JobModel j) = []"
    by (intro validate_ok) (simp_all add: JobModel_fields)
  with a show "create uniqueIndex s j = (Some (DuplicateId (requestId j)), s)"
    by (simp add: create_def Let_def JobModel_fields)
next
  fix e s' assume "create uniqueIndex s j = (Some e, s')"
  then show "s' = s"
    by (auto simp: create_def Let_def split: if_splits option.splits)
qed

text \<open>
  A job with a malformed id, a job with a string payload, and, on a collection with the
  unique index (as built where \<open>NODE_ENV\<close> is \<open>development\<close>), a job whose id is stored.
\<close>

theorem create_rejects_witness:
  "create True [] (syncJob\<lparr> requestId := ''not-a-uuid'' \<rparr>) =
     (Some (ValidationError [''Request ID must be a valid UUID'']), []) \<and>
   create True [] (syncJob\<lparr> payload := JStr ''text'' \<rparr>) =
     (Some (ValidationError [''Payload must be a valid object'']), []) \<and>
   autoIndex ''development'' \<and>
   create (autoIndex ''development'') [syncJob\<lparr> result := JNull \<rparr>] syncJob =
     (Some (DuplicateId sampleId), [syncJob\<lparr> result := JNull \<rparr>])"
proof -
  have 1: "\<not> uuidRegex (trim (requestId (syncJob\<lparr> requestId := ''not-a-uuid'' \<rparr>)))"
    by code_simp
  have 2: "payload (syncJob\<lparr> payload := JStr ''text'' \<rparr>) = JNull \<or>
           \<not> typeof_object (payload (syncJob\<lparr> payload := JStr ''text'' \<rparr>))"
    by simp
  have ix: "autoIndex ''development''" by (simp add: autoIndex_def)
  have 3: "autoIndex ''development'' \<and>
      uuidRegex (trim (requestId syncJob)) \<and> payload syncJob \<noteq> JNull \<and>
      typeof_object (payload syncJob) \<and>
      (\<forall>m. error syncJob = Some m \<longrightarrow> length m \<le> 1000) \<and> preSave (JobModel syncJob) = None \<and>
      trim (requestId syncJob) \<in> set (map requestId [syncJob\<lparr> result := JNull \<rparr>])"
    using ix by (simp add: syncJob_def trim_sampleId uuid_sampleId preSave_def JobModel_def)
  from create_rejects[of "syncJob\<lparr> requestId := ''not-a-uuid'' \<rparr>" True "[]"] 1
  obtain m1 where a: "create True [] (syncJob\<lparr> requestId := ''not-a-uuid'' \<rparr>) =
      (Some (ValidationError m1), [])"
    by blast
  have a': "fst (create True [] (syncJob\<lparr> requestId := ''not-a-uuid'' \<rparr>)) =
      Some (ValidationError [''Request ID must be a valid UUID''])"
    by code_simp
  from create_rejects[of "syncJob\<lparr> payload := JStr ''text'' \<rparr>" True "[]"] 2
  obtain m2 where b: "create True [] (syncJob\<lparr> payload := JStr ''text'' \<rparr>) =
      (Some (ValidationError m2), [])"
    by blast
  have b': "fst (create True [] (syncJob\<lparr> payload := JStr ''text'' \<rparr>)) =
      Some (ValidationError [''Payload must be a valid object''])"
    by code_simp
  from create_rejects[of syncJob "autoIndex ''development''" "[syncJob\<lparr> result := JNull \<rparr>]"] 3
  have c: "create (autoIndex ''development'') [syncJob\<lparr> result := JNull \<rparr>] syncJob =
     (Some (DuplicateId (requestId syncJob)), [syncJob\<lparr> result := JNull \<rparr>])"
    by blast
  from a a' b b' c ix show ?thesis by (simp add: syncJob_def)
qed

text \<open>
  C9 as stated fails three times. An id with white space around it does not match the
  pattern, and the job is stored all the same, under the trimmed id. A job whose id is
  stored already but whose payload is null gets the validation error, not the duplicate-id
  error. And where \<open>NODE_ENV\<close> is \<open>production\<close>, as in \<open>docker-compose.yml\<close>, the unique
  index is not built and a job whose id is stored already is inserted a second time.
\<close>

theorem create_counterexample:
  "\<not> uuidRegex (requestId paddedJob) \<and>
   create True [] paddedJob = (None, [syncJob\<lparr> result := JNull \<rparr>]) \<and>
   create True [syncJob\<lparr> result := JNull \<rparr>] (syncJob\<lparr> payload := JNull \<rparr>) =
     (Some (ValidationError [''Payload is required'']), [syncJob\<lparr> result := JNull \<rparr>]) \<and>
   \<not> autoIndex ''production'' \<and>
   create (autoIndex ''production'') [syncJob\<lparr> result := JNull \<rparr>] syncJob =
     (None, [syncJob\<lparr> result := JNull \<rparr>, syncJob\<lparr> result := JNull \<rparr>])"
  by code_simp

section \<open>Well-formed collections\<close>

text \<open>
  A collection built by \<open>create\<close> and the updates is well-formed, provided the unique
  index is there or every new id is fresh (as the ids of \<open>uuidv4()\<close> are): a stored id
  matches the UUID pattern, so trimming leaves it as it is, and an update never changes an
  id.
\<close>

lemma inClass_not_space: "inClass k c \<Longrightarrow> \<not> isSpace c"
  by (cases k) (auto simp: isHex_def isSpace_def)

lemma uuid_no_space: "uuidRegex v \<Longrightarrow> \<forall>c \<in> set v. \<not> isSpace c"
  unfolding uuidRegex_def
  using inClass_not_space by (fastforce simp: list_all2_conv_all_nth in_set_conv_nth)

lemma trim_no_space: "\<forall>c \<in> set v. \<not> isSpace c \<Longrightarrow> trim v = v"
proof -
  assume a: "\<forall>c \<in> set v. \<not> isSpace c"
  then have "dropWhile isSpace v = v" by (cases v) simp_all
  moreover from a have "dropWhile isSpace (rev v) = rev v" by (cases "rev v") (auto simp: in_set_conv_nth)
  ultimately show ?thesis by (simp add: trim_def)
qed

lemma trim_uuid: "uuidRegex v \<Longrightarrow> trim v = v"
  by (rule trim_no_space[OF uuid_no_space])

lemma validate_uuid: "validate doc = [] \<Longrightarrow> uuidRegex (requestId doc)"
  by (auto simp: validate_def validate_requestId_def List.map_filter_simps split: if_splits)

lemma create_wf:
  assumes "wf_store s" and "uniqueIndex \<or> trim (requestId j) \<notin> set (map requestId s)"
  shows "wf_store (snd (create uniqueIndex s j))"
proof -
  have "trim (trim (requestId j)) = trim (requestId j)" if "validate (JobModel j) = []"
    using validate_uuid[OF that] by (simp add: JobModel_def trim_uuid)
  with assms show ?thesis
    by (auto simp: create_def Let_def wf_store_def JobModel_def split: option.splits)
qed

lemma requestId_apply_set: "requestId (apply_set d j) = requestId j"
  by (simp add: apply_set_def)

lemma map_requestId_updateFirst:
  "map requestId (snd (updateFirst P (apply_set d) s)) = map requestId s"
  by (induction s) (auto simp: requestId_apply_set split: prod.splits)

lemma updateOne_wf: "wf_store s \<Longrightarrow> wf_store (snd (updateOne s rid d))"
proof -
  assume wf: "wf_store s"
  have m: "map requestId (snd (updateOne s rid d)) = map requestId s"
    by (simp add: updateOne_def map_requestId_updateFirst)
  have "list_all (\<lambda>j. trim (requestId j) = requestId j) xs =
        list_all (\<lambda>r. trim r = r) (map requestId xs)" for xs :: store
    by (simp add: list_all_iff)
  with wf m show ?thesis by (simp add: wf_store_def)
qed

section \<open>Webhook intake\<close>

text \<open>
  C4, as the code has it. A webhook that names a job which is not stored: \<open>updateResult\<close>
  throws its not-found error, the handler's \<open>catch\<close> answers 500 with the body
  \<open>{ error: 'Internal server error' }\<close>, and the collection and the cache are as they
  were.
\<close>

theorem webhook_unknown_job:
  assumes "truthy_str (wb_requestId b)" and "findById s (the (wb_requestId b)) = None"
  shows "updateResult s (the (wb_requestId b)) st res err now =
           (Some (NotFound (the (wb_requestId b))), s) \<and>
         handleVendorWebhook (s, c) b now =
           (\<lparr> code = 500, body = JObj [(''error'', JStr ''Internal server error'')] \<rparr>, s, c)"
proof -
  from assms(2) have u: "updateOne s (the (wb_requestId b)) d = (0, s)" for d
    by (simp add: updateOne_def findById_def updateFirst_none)
  then have "updateResult s (the (wb_requestId b)) st res err now =
           (Some (NotFound (the (wb_requestId b))), s)"
    by (simp add: updateResult_def)
  moreover from u assms(1) have "handleVendorWebhook (s, c) b now =
           (\<lparr> code = 500, body = JObj [(''error'', JStr ''Internal server error'')] \<rparr>, s, c)"
    by (simp add: handleVendorWebhook_def Let_def updateResult_def json_error_def)
  ultimately show ?thesis by simp
qed

text \<open>
  A webhook for an id on the empty collection.
\<close>

theorem webhook_unknown_job_witness:
  "truthy_str (wb_requestId unknownHook) \<and> findById [] (the (wb_requestId unknownHook)) = None \<and>
   fst (handleVendorWebhook ([], emptyCache) unknownHook 7000) =
      \<lparr> code = 500, body = JObj [(''error'', JStr ''Internal server error'')] \<rparr> \<and>
   fst (snd (handleVendorWebhook ([], emptyCache) unknownHook 7000)) = []"
proof -
  have 1: "truthy_str (wb_requestId unknownHook)" by (simp add: unknownHook_def sampleId_def)
  have 2: "findById [] (the (wb_requestId unknownHook)) = None" by (simp add: findById_def)
  from webhook_unknown_job[OF 1 2, of Complete JNull None 7000 emptyCache] 1 2
  show ?thesis by simp
qed

text \<open>
  C4 as stated fails: the answer to a webhook for an unknown job has status 500, not a
  status of the 400 class.
\<close>

theorem webhook_counterexample:
  "findById [] sampleId = None \<and>
   code (fst (handleVendorWebhook ([], emptyCache) unknownHook 7000)) = 500"
  by code_simp

section \<open>The timeout sweeper\<close>

























section \<open>The circuit breaker\<close>

lemma keepRecentLatencies_fields:
  "state (keepRecentLatencies cb) = state cb"
  "failures (keepRecentLatencies cb) = failures cb"
  "totalRequests (keepRecentLatencies cb) = totalRequests cb"
  "options (keepRecentLatencies cb) = options cb"
  by (simp_all add: keepRecentLatencies_def)

lemma shouldAttemptReset_Some:
  "lastFailureTime cb = Some t \<Longrightarrow>
   shouldAttemptReset cb now = (recoveryTimeout (options cb) \<le> now - t)"
  by (simp add: shouldAttemptReset_def)

lemma state_onSuccess_HALF_OPEN:
  "state cb = HALF_OPEN \<Longrightarrow> state (onSuccess cb latency now) = CLOSED"
  by (simp add: onSuccess_def Let_def keepRecentLatencies_fields setState_def resetCounters_def)

text \<open>
  A breaker that a failure has opened has that failure's time recorded; a breaker opened by
  hand that has no failure recorded is probed by the next \<open>execute\<close> at once.
\<close>

lemma onFailure_records: "lastFailureTime (onFailure cb latency now) = Some now"
  by (simp add: onFailure_def Let_def keepRecentLatencies_def setState_def)

lemma execute_open_unrecorded:
  "state cb = OPEN \<Longrightarrow> lastFailureTime cb = None \<Longrightarrow> invoked (execute cb now operation)"
  by (simp add: execute_def admit_def shouldAttemptReset_def Let_def split: prod.splits sum.splits)

text \<open>
  C5, as the code has it. An OPEN breaker with a recorded last failure at time \<open>t\<close>: while
  less than \<open>recoveryTimeout\<close> has passed since \<open>t\<close>, \<open>execute\<close> throws the circuit-open
  error, does not call the operation and leaves the breaker as it is. Once
  \<open>recoveryTimeout\<close> has passed, and also at once when no failure is recorded, \<open>execute\<close>
  moves the breaker to HALF_OPEN and calls the operation, and an operation that resolves
  in time closes the breaker.
\<close>

theorem execute_open:
  assumes "state cb = OPEN"
  shows "(\<forall>t. lastFailureTime cb = Some t \<and> now - t < recoveryTimeout (options cb) \<longrightarrow>
            execute cb now operation =
              \<lparr> breaker = cb, invoked = False,
                outcome = Inl (CircuitOpen (openMessage (serviceName cb))) \<rparr>) \<and>
         (lastFailureTime cb = None \<or>
          (\<exists>t. lastFailureTime cb = Some t \<and> recoveryTimeout (options cb) \<le> now - t) \<longrightarrow>
            admit cb now = Some (setState cb HALF_OPEN now) \<and>
            invoked (execute cb now operation) \<and>
            (\<forall>v d. race (options cb) (operation now) = (Inr v, d) \<longrightarrow>
               state (breaker (execute cb now operation)) = CLOSED \<and>
               outcome (execute cb now operation) = Inr v))"
proof (intro conjI impI allI)
  fix t assume "lastFailureTime cb = Some t \<and> now - t < recoveryTimeout (options cb)"
  with assms have "admit cb now = None"
    by (simp add: admit_def shouldAttemptReset_Some)
  then show "execute cb now operation =
              \<lparr> breaker = cb, invoked = False,
                outcome = Inl (CircuitOpen (openMessage (serviceName cb))) \<rparr>"
    by (simp add: execute_def)
next
  assume "lastFailureTime cb = None \<or>
          (\<exists>t. lastFailureTime cb = Some t \<and> recoveryTimeout (options cb) \<le> now - t)"
  then have "shouldAttemptReset cb now"
    by (auto simp: shouldAttemptReset_def)
  with assms show adm: "admit cb now = Some (setState cb HALF_OPEN now)"
    by (simp add: admit_def)
  then show "invoked (execute cb now operation)"
    by (simp add: execute_def Let_def split: prod.splits sum.splits)
  fix v d assume r: "race (options cb) (operation now) = (Inr v, d)"
  have "state (cleanupOldRequests
          ((setState cb HALF_OPEN now)\<lparr> totalRequests := totalRequests (setState cb HALF_OPEN now) + 1,
             requestTimes := requestTimes (setState cb HALF_OPEN now) @ [now] \<rparr>) now) = HALF_OPEN"
    by (simp add: cleanupOldRequests_def setState_def Let_def)
  with adm r show "state (breaker (execute cb now operation)) = CLOSED"
    by (simp add: execute_def Let_def state_onSuccess_HALF_OPEN)
  from adm r show "outcome (execute cb now operation) = Inr v"
    by (simp add: execute_def Let_def)
qed

text \<open>
  The sync vendor's breaker, opened by a failure at time 1000 with a recovery timeout of
  30 s: at time 2000 the call fails fast, at time 31000 the operation runs and the breaker
  closes. The breaker opened by hand at time 1000 runs the operation at time 1001.
\<close>

theorem execute_open_witness:
  "state openBreaker = OPEN \<and> lastFailureTime openBreaker = Some 1000 \<and>
   execute openBreaker 2000 succeeding =
     \<lparr> breaker = openBreaker, invoked = False,
       outcome = Inl (CircuitOpen ''Circuit breaker is OPEN for syncVendor. Service unavailable.'') \<rparr> \<and>
   invoked (execute openBreaker 31000 succeeding) \<and>
   state (breaker (execute openBreaker 31000 succeeding)) = CLOSED \<and>
   state forcedOpen = OPEN \<and> lastFailureTime forcedOpen = None \<and>
   invoked (execute forcedOpen 1001 succeeding)"
proof -
  have 1: "state openBreaker = OPEN" by (simp add: openBreaker_def)
  have 2: "lastFailureTime openBreaker = Some 1000" by (simp add: openBreaker_def)
  have 3: "recoveryTimeout (options openBreaker) = 30000"
    by (simp add: openBreaker_def newCircuitBreaker_def VENDOR_API_def)
  have 4: "race (options openBreaker) (succeeding 31000) = (Inr (), 5)"
    by (simp add: race_def succeeding_def openBreaker_def newCircuitBreaker_def VENDOR_API_def)
  have 5: "openMessage (serviceName openBreaker) =
             ''Circuit breaker is OPEN for syncVendor. Service unavailable.''"
    by (simp add: openMessage_def openBreaker_def newCircuitBreaker_def)
  have 6: "state forcedOpen = OPEN"
    by (simp add: forcedOpen_def forceOpen_def setState_def)
  have 7: "lastFailureTime forcedOpen = None"
    by (simp add: forcedOpen_def forceOpen_def setState_def newCircuitBreaker_def)
  from execute_open[OF 1, of 2000 succeeding] 2 3 5
  have a: "execute openBreaker 2000 succeeding =
     \<lparr> breaker = openBreaker, invoked = False,
       outcome = Inl (CircuitOpen ''Circuit breaker is OPEN for syncVendor. Service unavailable.'') \<rparr>"
    by simp
  from execute_open[OF 1, of 31000 succeeding] 2 3 4
  have b: "invoked (execute openBreaker 31000 succeeding) \<and>
           state (breaker (execute openBreaker 31000 succeeding)) = CLOSED"
    by simp
  from execute_open[OF 6, of 1001 succeeding] 7
  have c: "invoked (execute forcedOpen 1001 succeeding)"
    by simp
  from 1 2 6 7 a b c show ?thesis by simp
qed

text \<open>
  C5 as stated fails: a breaker opened by hand at time 1000, with no failure recorded and
  a recovery timeout of 30 s, runs the operation of an \<open>execute\<close> 1 ms later and is CLOSED
  afterwards.
\<close>

theorem execute_open_counterexample:
  "state forcedOpen = OPEN \<and>
   lastFailureTime forcedOpen = None \<and>
   lastStateChange forcedOpen = 1000 \<and>
   recoveryTimeout (options forcedOpen) = 30000 \<and>
   invoked (execute forcedOpen 1001 succeeding) \<and>
   state (breaker (execute forcedOpen 1001 succeeding)) = CLOSED"
  by code_simp

text \<open>
  C6, as the code has it. A failure that brings the count of failures to
  \<open>failureThreshold\<close> or more opens the breaker provided \<open>totalRequests\<close> has reached
  \<open>minimumRequests\<close>; below \<open>minimumRequests\<close> the failure is counted and the state stays
  as it is.
\<close>

theorem onFailure_opens:
  "(minimumRequests (options cb) \<le> totalRequests cb \<and>
    failureThreshold (options cb) \<le> failures cb + 1 \<longrightarrow>
      state (onFailure cb latency now) = OPEN) \<and>
   (totalRequests cb < minimumRequests (options cb) \<longrightarrow>
      state (onFailure cb latency now) = state cb \<and>
      failures (onFailure cb latency now) = failures cb + 1)"
  by (simp add: onFailure_def Let_def shouldOpen_def keepRecentLatencies_fields setState_def)

text \<open>
  Two \<open>DATABASE\<close> breakers (threshold 3, minimum 5) at their third failure: the one with
  six requests opens, the one with three stays CLOSED.
\<close>

theorem onFailure_opens_witness:
  "state (onFailure twoOfFive 5 35) = OPEN \<and>
   failures (onFailure twoOfFive 5 35) = 3 \<and>
   state (onFailure twoFailures 5 35) = CLOSED \<and>
   failures (onFailure twoFailures 5 35) = 3"
proof -
  have 1: "minimumRequests (options twoOfFive) \<le> totalRequests twoOfFive \<and>
           failureThreshold (options twoOfFive) \<le> failures twoOfFive + 1"
    by (simp add: twoOfFive_def newCircuitBreaker_def DATABASE_def)
  have 2: "totalRequests twoFailures < minimumRequests (options twoFailures)"
    by (simp add: twoFailures_def newCircuitBreaker_def DATABASE_def)
  have 3: "state twoFailures = CLOSED" "failures twoFailures = 2"
    by (simp_all add: twoFailures_def newCircuitBreaker_def)
  have 4: "failures (onFailure twoOfFive 5 35) = 3"
    by (simp add: onFailure_def Let_def keepRecentLatencies_fields setState_def twoOfFive_def
          newCircuitBreaker_def)
  from onFailure_opens[of twoOfFive 5 35] onFailure_opens[of twoFailures 5 35] 1 2 3 4
  show ?thesis by simp
qed

text \<open>
  C6 as stated fails: three failing calls of a new \<open>DATABASE\<close> breaker bring its failures
  to the threshold of 3, and it is still CLOSED, three requests being fewer than the
  minimum of 5.
\<close>

theorem onFailure_counterexample:
  "failures afterThreeFailures = 3 \<and>
   failureThreshold (options afterThreeFailures) = 3 \<and>
   totalRequests afterThreeFailures = 3 \<and>
   minimumRequests (options afterThreeFailures) = 5 \<and>
   state afterThreeFailures = CLOSED"
  by code_simp

section \<open>The token bucket\<close>

lemma refill_le: "tokens (refillTokens rl now) \<le> capacity (refillTokens rl now)"
  by (simp add: refillTokens_def Let_def)

lemma refill_capacity: "capacity (refillTokens rl now) = capacity rl"
  by (simp add: refillTokens_def Let_def)

text \<open>
  A \<open>waitForSlot\<close> that returns has refilled at each of the readings it used, found a
  token after the last refill, and taken exactly that one.
\<close>

lemma waitForSlot_shape:
  "waitForSlot rl ts = Some rl' \<Longrightarrow>
   \<exists>used rest. ts = used @ rest \<and> used \<noteq> [] \<and>
     1 \<le> tokens (foldl refillTokens rl used) \<and>
     rl' = (foldl refillTokens rl used)\<lparr> tokens := tokens (foldl refillTokens rl used) - 1 \<rparr>"
proof (induction ts arbitrary: rl)
  case Nil
  then show ?case by simp
next
  case (Cons now later)
  show ?case
  proof (cases "1 \<le> tokens (refillTokens rl now)")
    case True
    with Cons.prems have "rl' = (refillTokens rl now)\<lparr> tokens := tokens (refillTokens rl now) - 1 \<rparr>"
      by (simp add: Let_def)
    with True have "now # later = [now] @ later \<and> [now] \<noteq> [] \<and>
        1 \<le> tokens (foldl refillTokens rl [now]) \<and>
        rl' = (foldl refillTokens rl [now])\<lparr> tokens := tokens (foldl refillTokens rl [now]) - 1 \<rparr>"
      by simp
    then show ?thesis by blast
  next
    case False
    with Cons.prems have "waitForSlot (refillTokens rl now) later = Some rl'"
      by (simp add: Let_def)
    from Cons.IH[OF this] obtain used rest where
      h: "later = used @ rest" "used \<noteq> []"
         "1 \<le> tokens (foldl refillTokens (refillTokens rl now) used)"
         "rl' = (foldl refillTokens (refillTokens rl now) used)
                  \<lparr> tokens := tokens (foldl refillTokens (refillTokens rl now) used) - 1 \<rparr>"
      by blast
    then have "now # later = (now # used) @ rest \<and> now # used \<noteq> [] \<and>
        1 \<le> tokens (foldl refillTokens rl (now # used)) \<and>
        rl' = (foldl refillTokens rl (now # used))
                \<lparr> tokens := tokens (foldl refillTokens rl (now # used)) - 1 \<rparr>"
      by simp
    then show ?thesis by blast
  qed
qed

lemma foldl_refill_le:
  "used \<noteq> [] \<Longrightarrow> tokens (foldl refillTokens rl used) \<le> capacity rl \<and>
     capacity (foldl refillTokens rl used) = capacity rl"
proof (induction used arbitrary: rl rule: rev_induct)
  case Nil
  then show ?case by simp
next
  case (snoc x xs)
  have c: "capacity (foldl refillTokens rl xs) = capacity rl" for rl
    by (induction xs arbitrary: rl) (simp_all add: refill_capacity)
  show ?case using refill_le[of "foldl refillTokens rl xs" x] c
    by (simp add: refill_capacity)
qed

lemma waitForSlot_le:
  assumes "waitForSlot rl ts = Some rl'"
  shows "tokens rl' \<le> capacity rl' \<and> capacity rl' = capacity rl"
proof -
  from waitForSlot_shape[OF assms] obtain used rest where
    h: "used \<noteq> []" "rl' = (foldl refillTokens rl used)\<lparr> tokens := tokens (foldl refillTokens rl used) - 1 \<rparr>"
    by blast
  from foldl_refill_le[OF h(1), of rl] h(2) show ?thesis by simp
qed

lemma waitForSlots_le:
  "tokens rl \<le> capacity rl \<Longrightarrow> waitForSlots rl tss = Some rl' \<Longrightarrow>
   tokens rl' \<le> capacity rl' \<and> capacity rl' = capacity rl"
proof (induction tss arbitrary: rl)
  case Nil
  then show ?case by simp
next
  case (Cons c cs)
  from Cons.prems(2) obtain rl1 where a: "waitForSlot rl c = Some rl1"
    and b: "waitForSlots rl1 cs = Some rl'"
    by (auto split: option.splits)
  from waitForSlot_le[OF a] Cons.IH[OF _ b] show ?case by simp
qed

text \<open>
  \<open>waitForSlot\<close> returns at the first round whose refill leaves a token, whatever the number
  of rounds before it that found none; and as long as no round finds one it has not
  returned.
\<close>

lemma waitForSlot_exact:
  assumes "\<forall>k < length waited. tokens (foldl refillTokens rl (take (Suc k) waited)) < 1"
    and "1 \<le> tokens (foldl refillTokens rl (waited @ [now]))"
  shows "waitForSlot rl (waited @ now # later) =
           Some ((foldl refillTokens rl (waited @ [now]))
                   \<lparr> tokens := tokens (foldl refillTokens rl (waited @ [now])) - 1 \<rparr>)"
  using assms
proof (induction waited arbitrary: rl)
  case Nil
  then show ?case by (simp add: Let_def)
next
  case (Cons x xs)
  from Cons.prems(1) have first: "tokens (refillTokens rl x) < 1" by fastforce
  have rest: "\<forall>k < length xs. tokens (foldl refillTokens (refillTokens rl x) (take (Suc k) xs)) < 1"
  proof (intro allI impI)
    fix k assume "k < length xs"
    then have "Suc k < length (x # xs)" by simp
    with Cons.prems(1) have "tokens (foldl refillTokens rl (take (Suc (Suc k)) (x # xs))) < 1"
      by blast
    then show "tokens (foldl refillTokens (refillTokens rl x) (take (Suc k) xs)) < 1" by simp
  qed
  from Cons.prems(2) have last: "1 \<le> tokens (foldl refillTokens (refillTokens rl x) (xs @ [now]))"
    by simp
  from first have "waitForSlot rl ((x # xs) @ now # later) =
                   waitForSlot (refillTokens rl x) (xs @ now # later)"
    by (simp add: Let_def)
  with Cons.IH[OF rest last] show ?case by simp
qed

lemma waitForSlot_waiting:
  "\<forall>k < length ticks. tokens (foldl refillTokens rl (take (Suc k) ticks)) < 1 \<Longrightarrow>
   waitForSlot rl ticks = None"
proof (induction ticks arbitrary: rl)
  case Nil
  then show ?case by simp
next
  case (Cons x xs)
  from Cons.prems have first: "tokens (refillTokens rl x) < 1" by fastforce
  have "\<forall>k < length xs. tokens (foldl refillTokens (refillTokens rl x) (take (Suc k) xs)) < 1"
  proof (intro allI impI)
    fix k assume "k < length xs"
    then have "Suc k < length (x # xs)" by simp
    with Cons.prems have "tokens (foldl refillTokens rl (take (Suc (Suc k)) (x # xs))) < 1"
      by blast
    then show "tokens (foldl refillTokens (refillTokens rl x) (take (Suc k) xs)) < 1" by simp
  qed
  from Cons.IH[OF this] first show ?case by (simp add: Let_def)
qed

text \<open>
  The sleep is long enough: if the first round finds no token and the next reading comes
  \<open>waitTime\<close> or more later, the second round takes a token (for a bucket of capacity 1 or
  more that refills).
\<close>

lemma waitForSlot_after_wait:
  assumes "1 \<le> capacity rl" and "0 < refillRate rl"
    and "tokens (refillTokens rl now) < 1"
    and "waitTime (refillTokens rl now) \<le> real_of_int (now' - now)"
  shows "waitForSlot rl (now # now' # later) =
           Some ((refillTokens (refillTokens rl now) now')
                   \<lparr> tokens := tokens (refillTokens (refillTokens rl now) now') - 1 \<rparr>)"
proof -
  let ?rl1 = "refillTokens rl now"
  have r: "refillRate ?rl1 = refillRate rl" "capacity ?rl1 = capacity rl" "lastRefill ?rl1 = now"
    by (simp_all add: refillTokens_def Let_def)
  from assms(4) have "(1 - tokens ?rl1) / refillRate rl * 1000 \<le> real_of_int (now' - now)"
    by (simp add: waitTime_def r)
  with assms(2) have "1 - tokens ?rl1 \<le> real_of_int (now' - now) / 1000 * refillRate rl"
    by (simp add: field_simps)
  then have "1 \<le> tokens ?rl1 + real_of_int (now' - lastRefill ?rl1) / 1000 * refillRate ?rl1"
    by (simp add: r)
  with assms(1) have "1 \<le> tokens (refillTokens ?rl1 now')"
    by (simp add: refillTokens_def[of ?rl1 now'] Let_def r)
  with assms(3) show ?thesis by (simp add: Let_def)
qed

text \<open>
  C8. A new limiter holds \<open>capacity\<close> tokens. \<open>refillTokens\<close> sets the tokens to
  \<open>min(capacity, tokens + elapsedSeconds * refillRate)\<close>. \<open>waitForSlot\<close> returns at once
  when the refill leaves a token; after any number of rounds that found none it returns at
  the first round whose refill leaves one, and it does so at the second round when the
  clock has advanced by the sleep it computed. Whenever it returns, it has refilled at
  every reading it used and then taken exactly one token, and the tokens are at most
  \<open>capacity\<close>. After any sequence of \<open>waitForSlot\<close> calls on a new limiter the tokens are at
  most \<open>capacity\<close>.
\<close>

theorem token_bucket:
  "tokens (newRateLimiter rpm t0) = capacity (newRateLimiter rpm t0) \<and>
   tokens (refillTokens rl now) =
     min (capacity rl) (tokens rl + real_of_int (now - lastRefill rl) / 1000 * refillRate rl) \<and>
   (1 \<le> tokens (refillTokens rl now) \<longrightarrow>
      waitForSlot rl (now # later) =
        Some ((refillTokens rl now)\<lparr> tokens := tokens (refillTokens rl now) - 1 \<rparr>)) \<and>
   ((\<forall>k < length waited. tokens (foldl refillTokens rl (take (Suc k) waited)) < 1) \<and>
    1 \<le> tokens (foldl refillTokens rl (waited @ [now])) \<longrightarrow>
      waitForSlot rl (waited @ now # later) =
        Some ((foldl refillTokens rl (waited @ [now]))
                \<lparr> tokens := tokens (foldl refillTokens rl (waited @ [now])) - 1 \<rparr>)) \<and>
   (1 \<le> capacity rl \<and> 0 < refillRate rl \<and> tokens (refillTokens rl now) < 1 \<and>
    waitTime (refillTokens rl now) \<le> real_of_int (now' - now) \<longrightarrow>
      waitForSlot rl (now # now' # later) =
        Some ((refillTokens (refillTokens rl now) now')
                \<lparr> tokens := tokens (refillTokens (refillTokens rl now) now') - 1 \<rparr>)) \<and>
   (\<forall>rl'. waitForSlot rl ticks = Some rl' \<longrightarrow>
      (\<exists>used rest. ticks = used @ rest \<and> used \<noteq> [] \<and>
         1 \<le> tokens (foldl refillTokens rl used) \<and>
         rl' = (foldl refillTokens rl used)\<lparr> tokens := tokens (foldl refillTokens rl used) - 1 \<rparr>) \<and>
      tokens rl' \<le> capacity rl' \<and> capacity rl' = capacity rl) \<and>
   (\<forall>rl'. waitForSlots (newRateLimiter rpm t0) calls = Some rl' \<longrightarrow>
      tokens rl' \<le> capacity rl' \<and> capacity rl' = rpm)"
proof (intro conjI allI impI)
  show "tokens (newRateLimiter rpm t0) = capacity (newRateLimiter rpm t0)"
    by (simp add: newRateLimiter_def)
  show "tokens (refillTokens rl now) =
     min (capacity rl) (tokens rl + real_of_int (now - lastRefill rl) / 1000 * refillRate rl)"
    by (simp add: refillTokens_def Let_def)
  show "waitForSlot rl (now # later) =
        Some ((refillTokens rl now)\<lparr> tokens := tokens (refillTokens rl now) - 1 \<rparr>)"
    if "1 \<le> tokens (refillTokens rl now)" using that by (simp add: Let_def)
  show "waitForSlot rl (waited @ now # later) =
        Some ((foldl refillTokens rl (waited @ [now]))
                \<lparr> tokens := tokens (foldl refillTokens rl (waited @ [now])) - 1 \<rparr>)"
    if "(\<forall>k < length waited. tokens (foldl refillTokens rl (take (Suc k) waited)) < 1) \<and>
        1 \<le> tokens (foldl refillTokens rl (waited @ [now]))"
    using that waitForSlot_exact[of waited rl now later] by blast
  show "waitForSlot rl (now # now' # later) =
        Some ((refillTokens (refillTokens rl now) now')
                \<lparr> tokens := tokens (refillTokens (refillTokens rl now) now') - 1 \<rparr>)"
    if "1 \<le> capacity rl \<and> 0 < refillRate rl \<and> tokens (refillTokens rl now) < 1 \<and>
        waitTime (refillTokens rl now) \<le> real_of_int (now' - now)"
    using that waitForSlot_after_wait[of rl now now' later] by blast
next
  fix rl' assume a: "waitForSlot rl ticks = Some rl'"
  show "\<exists>used rest. ticks = used @ rest \<and> used \<noteq> [] \<and>
         1 \<le> tokens (foldl refillTokens rl used) \<and>
         rl' = (foldl refillTokens rl used)\<lparr> tokens := tokens (foldl refillTokens rl used) - 1 \<rparr>"
    by (rule waitForSlot_shape[OF a])
  from waitForSlot_le[OF a] show "tokens rl' \<le> capacity rl'" and "capacity rl' = capacity rl"
    by simp_all
next
  fix rl' assume a: "waitForSlots (newRateLimiter rpm t0) calls = Some rl'"
  have "tokens (newRateLimiter rpm t0) \<le> capacity (newRateLimiter rpm t0)"
    by (simp add: newRateLimiter_def)
  from waitForSlots_le[OF this a] show "tokens rl' \<le> capacity rl'" and "capacity rl' = rpm"
    by (simp_all add: newRateLimiter_def)
qed

text \<open>
  A limiter of 60 requests per minute: one call leaves 59 tokens, two calls 58. Sixty
  calls at time 0 drain it; the next call finds no token at time 0, sleeps, and takes the
  token that one second has refilled; with readings at 0, 500 and 1000 ms it returns at
  the third round.
\<close>

theorem token_bucket_witness:
  "tokens (newRateLimiter 60 0) = 60 \<and>
   waitForSlot (newRateLimiter 60 0) [500] =
     Some ((newRateLimiter 60 0)\<lparr> tokens := 59, lastRefill := 500 \<rparr>) \<and>
   waitForSlots (newRateLimiter 60 0) [[500], [500]] =
     Some ((newRateLimiter 60 0)\<lparr> tokens := 58, lastRefill := 500 \<rparr>) \<and>
   tokens ((newRateLimiter 60 0)\<lparr> tokens := 58, lastRefill := 500 \<rparr>) \<le> 60 \<and>
   waitForSlots (newRateLimiter 60 0) (replicate 60 [0]) = Some drained \<and>
   waitTime (refillTokens drained 0) = 1000 \<and>
   waitForSlot drained [0, 1000] = Some (drained\<lparr> tokens := 0, lastRefill := 1000 \<rparr>) \<and>
   waitForSlot drained [0, 500, 1000] = Some (drained\<lparr> tokens := 0, lastRefill := 1000 \<rparr>)"
proof -
  have 1: "1 \<le> tokens (refillTokens (newRateLimiter 60 0) 500)"
    by (simp add: newRateLimiter_def refillTokens_def Let_def)
  have 2: "waitForSlots (newRateLimiter 60 0) [[500], [500]] =
     Some ((newRateLimiter 60 0)\<lparr> tokens := 58, lastRefill := 500 \<rparr>)"
    by (simp add: newRateLimiter_def refillTokens_def Let_def)
  have 3: "waitForSlots (newRateLimiter 60 0) (replicate 60 [0]) = Some drained"
    by code_simp
  have r0: "refillTokens drained 0 = drained"
    by (simp add: drained_def newRateLimiter_def refillTokens_def Let_def)
  have w: "waitTime (refillTokens drained 0) = 1000"
    by (simp add: r0) (simp add: waitTime_def drained_def newRateLimiter_def)
  have 4: "1 \<le> capacity drained \<and> 0 < refillRate drained \<and> tokens (refillTokens drained 0) < 1 \<and>
           waitTime (refillTokens drained 0) \<le> real_of_int (1000 - 0)"
    by (simp add: w) (simp add: r0, simp add: drained_def newRateLimiter_def)
  have r500: "refillTokens drained 500 = drained\<lparr> tokens := 1 / 2, lastRefill := 500 \<rparr>"
    by (simp add: drained_def newRateLimiter_def refillTokens_def Let_def)
  have r1000: "refillTokens (drained\<lparr> tokens := 1 / 2, lastRefill := 500 \<rparr>) 1000 =
                 drained\<lparr> tokens := 1, lastRefill := 1000 \<rparr>"
    by (simp add: drained_def newRateLimiter_def refillTokens_def Let_def)
  have r1000': "refillTokens drained 1000 = drained\<lparr> tokens := 1, lastRefill := 1000 \<rparr>"
    by (simp add: drained_def newRateLimiter_def refillTokens_def Let_def)
  have 5: "(\<forall>k < length [0, 500 :: int].
              tokens (foldl refillTokens drained (take (Suc k) [0, 500])) < 1) \<and>
           1 \<le> tokens (foldl refillTokens drained ([0, 500] @ [1000]))"
    by (simp add: less_Suc_eq r0 r500 r1000) (simp add: drained_def)
  from token_bucket[of 60 0 "newRateLimiter 60 0" 500 "[]" "[]" 500 "[500]" "[[500], [500]]"] 1 2
  have a: "tokens (newRateLimiter 60 0) = 60 \<and>
     waitForSlot (newRateLimiter 60 0) [500] =
       Some ((newRateLimiter 60 0)\<lparr> tokens := 59, lastRefill := 500 \<rparr>) \<and>
     tokens ((newRateLimiter 60 0)\<lparr> tokens := 58, lastRefill := 500 \<rparr>) \<le> 60"
    by (simp add: newRateLimiter_def refillTokens_def Let_def)
  from token_bucket[of 60 0 drained 0 "[]" "[0, 500]" 1000 "[]" "[]"] 4 5
  have b: "waitForSlot drained [0, 1000] = Some (drained\<lparr> tokens := 0, lastRefill := 1000 \<rparr>)"
    by (simp add: r0 r1000')
  from token_bucket[of 60 0 drained 1000 "[]" "[0, 500]" 1000 "[]" "[]"] 5
  have c: "waitForSlot drained [0, 500, 1000] = Some (drained\<lparr> tokens := 0, lastRefill := 1000 \<rparr>)"
    by (simp add: r0 r500 r1000)
  from a 2 3 w b c show ?thesis by simp
qed

section \<open>The vendor call and the worker\<close>

lemma callVendor_granted:
  assumes "vendors vm v = Some vc" and "rateLimiters vm v = Some rl"
    and "waitForSlot rl (clock env) = Some rl'"
  shows "callVendor vm v pl rid env =
     (let p = \<lparr> post_url = url vc,
                post_body = requestData vm vc v pl rid (isoTimestamp env),
                post_requestId = rid \<rparr>
      in Some \<lparr> returned = Inr (case axios_post env p of
                    Inr (httpStatus, d) \<Rightarrow>
                      \<lparr> data = d, vr_isAsync = isAsync vc, vr_status = VendorSuccess, vr_error = None \<rparr>
                  | Inl err \<Rightarrow>
                      \<lparr> data = JNull, vr_isAsync = isAsync vc, vr_status = VendorError,
                        vr_error = Some (errorMessage err) \<rparr>),
                manager = vm\<lparr> rateLimiters := (rateLimiters vm)(v \<mapsto> rl') \<rparr>,
                sent = [p] \<rparr>)"
  using assms by (auto simp: callVendor_def Let_def split: sum.splits prod.splits)

text \<open>
  The vendor call of the worker, for a registered vendor whose limiter grants a slot: it
  sends the POST to the vendor's url and returns a response (it does not throw); no
  circuit breaker is read or changed on the way.
\<close>

lemma dispatch_sends:
  assumes "vendors (vendorManager sv) v = Some vc"
    and "rateLimiters (vendorManager sv) v = Some rl"
    and "waitForSlot rl (clock env) = Some rl'"
  shows "\<exists>r sv'. dispatch sv v pl rid env = Some (r, sv') \<and>
           sent r = [\<lparr> post_url = url vc,
                       post_body = requestData (vendorManager sv) vc v pl rid (isoTimestamp env),
                       post_requestId = rid \<rparr>] \<and>
           (\<exists>resp. returned r = Inr resp \<and>
              (vr_status resp = VendorSuccess) =
                (\<exists>answer. axios_post env (hd (sent r)) = Inr answer)) \<and>
           breakers sv' = breakers sv"
proof -
  let ?p = "\<lparr> post_url = url vc,
              post_body = requestData (vendorManager sv) vc v pl rid (isoTimestamp env),
              post_requestId = rid \<rparr>"
  from callVendor_granted[OF assms, of pl rid] obtain r where
    r: "callVendor (vendorManager sv) v pl rid env = Some r" "sent r = [?p]"
       "returned r = Inr (case axios_post env ?p of
                    Inr (httpStatus, d) \<Rightarrow>
                      \<lparr> data = d, vr_isAsync = isAsync vc, vr_status = VendorSuccess, vr_error = None \<rparr>
                  | Inl err \<Rightarrow>
                      \<lparr> data = JNull, vr_isAsync = isAsync vc, vr_status = VendorError,
                        vr_error = Some (errorMessage err) \<rparr>)"
    by (simp add: Let_def)
  then have d: "dispatch sv v pl rid env = Some (r, sv\<lparr> vendorManager := manager r \<rparr>)"
    by (simp add: dispatch_def)
  have "\<exists>resp. returned r = Inr resp \<and>
              (vr_status resp = VendorSuccess) =
                (\<exists>answer. axios_post env (hd (sent r)) = Inr answer)"
    using r(2,3) by (cases "axios_post env ?p") auto
  with d r(2) show ?thesis by simp
qed

text \<open>
  C3 fails on the code. The sync vendor's breaker is OPEN since a failure at time 1000 and
  its recovery timeout of 30 s has not passed at time 2002, so an \<open>execute\<close> of that breaker
  fails fast without calling its operation; the worker's vendor call at that time sends
  the POST to the vendor all the same. \<open>callVendor\<close> calls \<open>axios.post\<close> directly: no
  \<open>CircuitBreaker\<close> is constructed or consulted outside \<open>CircuitBreaker.ts\<close>, although that
  file ships the \<open>VENDOR_API\<close> configuration.
\<close>

theorem dispatch_while_open:
  "breakers services0 ''syncVendor'' = Some openBreaker \<and>
   state openBreaker = OPEN \<and>
   \<not> shouldAttemptReset openBreaker 2002 \<and>
   \<not> invoked (execute openBreaker 2002 succeeding) \<and>
   sentTo (dispatch services0 ''syncVendor'' (JObj [(''type'', JStr ''sync'')]) sampleId
             (call (envWith vendorUp)))
     = [''http://localhost:3001/api/data'']"
  by code_simp

text \<open>
  C2, as the code has it. \<open>processJob\<close> never reads the job's status. For every delivered
  message whose payload parses and selects a registered vendor whose limiter grants a slot,
  the worker writes the status \<open>processing\<close> and the vendor, sends the vendor POST, writes
  \<open>complete\<close> if the vendor is synchronous, and acknowledges the message, whatever the
  stored job's status, terminal or not.
\<close>

theorem worker_ignores_status:
  assumes "JSON_parse env (msg_payload m) = Inr pl"
    and "selectVendor pl = Inr v"
    and "vendors (vendorManager (svc w)) v = Some vc"
    and "rateLimiters (vendorManager (svc w)) v = Some rl"
    and "waitForSlot rl (clock (call env)) = Some rl'"
  shows "\<exists>w'. handleMessage w m env = Some w' \<and>
           posts w' = posts w @
             [\<lparr> post_url = url vc,
                post_body = requestData (vendorManager (svc w)) vc v pl (msg_requestId m)
                              (isoTimestamp (call env)),
                post_requestId = msg_requestId m \<rparr>] \<and>
           acked w' = acked w @ [msg_id m] \<and>
           (isAsync vc \<longrightarrow>
              jobs w' = setVendor (updateJobStatus (jobs w) (msg_requestId m) Processing (t_status env))
                          (msg_requestId m) v (t_vendor env)) \<and>
           (\<not> isAsync vc \<longrightarrow>
              (\<exists>cleanedData.
                 jobs w' = updateJobResult
                             (setVendor (updateJobStatus (jobs w) (msg_requestId m) Processing
                                           (t_status env))
                                (msg_requestId m) v (t_vendor env))
                             (msg_requestId m) Complete cleanedData None (t_result env)))"
proof -
  let ?p = "\<lparr> post_url = url vc,
              post_body = requestData (vendorManager (svc w)) vc v pl (msg_requestId m)
                            (isoTimestamp (call env)),
              post_requestId = msg_requestId m \<rparr>"
  from callVendor_granted[OF assms(3,4,5), of pl "msg_requestId m"] obtain r resp where
    r: "callVendor (vendorManager (svc w)) v pl (msg_requestId m) (call env) = Some r"
       "sent r = [?p]" "returned r = Inr resp" "vr_isAsync resp = isAsync vc"
    by (cases "axios_post (call env) ?p") (auto simp: Let_def)
  then have d: "dispatch (svc w) v pl (msg_requestId m) (call env) =
                  Some (r, (svc w)\<lparr> vendorManager := manager r \<rparr>)"
    by (simp add: dispatch_def)
  show ?thesis
    using assms(1,2) d r(2,3,4)
    by (cases "isAsync vc") (auto simp: handleMessage_def processJob_def Let_def)
qed

text \<open>
  A message for a job that has already failed: the vendor is called, the message
  acknowledged.
\<close>

theorem worker_ignores_status_witness:
  "JSON_parse (envWith vendorUp) (msg_payload msg0) = Inr (JObj [(''type'', JStr ''sync'')]) \<and>
   selectVendor (JObj [(''type'', JStr ''sync'')]) = Inr ''syncVendor'' \<and>
   status failedJob = Failed \<and>
   (\<exists>w'. handleMessage (workerWith [failedJob]) msg0 (envWith vendorUp) = Some w' \<and>
      map post_url (posts w') = [''http://localhost:3001/api/data''] \<and>
      acked w' = [''1-0''])"
proof -
  have 1: "JSON_parse (envWith vendorUp) (msg_payload msg0) = Inr (JObj [(''type'', JStr ''sync'')])"
    by (simp add: envWith_def msg0_def parse0_def)
  have 2: "selectVendor (JObj [(''type'', JStr ''sync'')]) = Inr ''syncVendor''"
    by (simp add: selectVendor_def)
  have 3: "vendors (vendorManager (svc (workerWith [failedJob]))) ''syncVendor'' = Some (syncVendor cfg0)"
    by (simp add: workerWith_def services0_def newVendorManager_def)
  have 4: "rateLimiters (vendorManager (svc (workerWith [failedJob]))) ''syncVendor'' =
             Some (newRateLimiter 60 0)"
    by (simp add: workerWith_def services0_def newVendorManager_def syncVendor_def)
  have 5: "waitForSlot (newRateLimiter 60 0) (clock (call (envWith vendorUp))) =
             Some ((newRateLimiter 60 0)\<lparr> tokens := 59, lastRefill := 2002 \<rparr>)"
    by (simp add: envWith_def newRateLimiter_def refillTokens_def Let_def)
  have 6: "url (syncVendor cfg0) = ''http://localhost:3001/api/data''"
    by (simp add: syncVendor_def cfg0_def orElse_def)
  from worker_ignores_status[OF 1 2 3 4 5] obtain w' where
    "handleMessage (workerWith [failedJob]) msg0 (envWith vendorUp) = Some w'"
    "map post_url (posts w') = map post_url (posts (workerWith [failedJob])) @ [url (syncVendor cfg0)]"
    "acked w' = acked (workerWith [failedJob]) @ [msg_id msg0]"
    by auto
  then have "\<exists>w'. handleMessage (workerWith [failedJob]) msg0 (envWith vendorUp) = Some w' \<and>
      map post_url (posts w') = [''http://localhost:3001/api/data''] \<and>
      acked w' = [''1-0'']"
    by (simp add: 6 workerWith_def msg0_def)
  with 1 2 show ?thesis by (simp add: failedJob_def)
qed

text \<open>
  C2 as stated fails: a message for a job that is already \<open>complete\<close> makes the worker
  POST to the vendor again (and then acknowledge).
\<close>

theorem worker_counterexample:
  "status completeJob = Complete \<and>
   postedTo (handleMessage (workerWith [completeJob]) msg0 (envWith vendorUp)) =
     [''http://localhost:3001/api/data''] \<and>
   ackedAfter (handleMessage (workerWith [completeJob]) msg0 (envWith vendorUp)) = [''1-0'']"
  by code_simp

text \<open>
  C1 fails on the code. A sync job whose vendor answers 500: \<open>callVendor\<close> returns an
  error response, \<open>processJob\<close> does not look at its status and writes the job \<open>complete\<close>
  with the cleaned \<open>null\<close> data, so the stored job is \<open>complete\<close> with neither result nor
  error. And a webhook with status \<open>failed\<close> and no error leaves the stored job \<open>failed\<close>
  without an error. The rules of \<open>pre('save')\<close> are not run by \<open>updateOne\<close>.
\<close>

theorem complete_without_result:
  "map summary (snd (create True [] syncJob)) = [(Pending, JNull, None)] \<and>
   map summary
     (jobsAfter (handleMessage (workerWith (snd (create True [] syncJob))) msg0 (envWith vendorDown)))
     = [(Complete, JNull, None)] \<and>
   map summary
     (fst (snd (handleVendorWebhook (snd (create True [] syncJob), emptyCache) failedHook 7000)))
     = [(Failed, JNull, None)]"
  by code_simp

end
